theory Spec2Isabelle
  imports Main "HOL-Library.Word"
begin

unbundle bit_operations_syntax

section \<open>Common data\<close>

text \<open>
  Bytes (\<^verbatim>\<open>bytes\<close>, \<^verbatim>\<open>bytearray\<close>, \<^verbatim>\<open>np.uint8\<close> arrays) are lists of 8-bit words.
  Python's unbounded integers are \<^typ>\<open>int\<close>; the CRC-32C register, which the source keeps
  below \<open>2 ^ 32\<close> at every step (it starts from \<^verbatim>\<open>init ^ 0xFFFFFFFF\<close> with the default
  \<^verbatim>\<open>init = 0\<close>, the only value any caller passes, and is only shifted right and XORed
  with 32-bit constants), is a 32-bit word. Strings are lists of characters with code points
  below 256.
\<close>

type_synonym byte = "8 word"
type_synonym u32 = "32 word"

datatype py_error = ValueError | KeyError | AssertionError | StructError | OSError

text \<open>Python slices \<^verbatim>\<open>xs[:k]\<close> and \<^verbatim>\<open>xs[k:]\<close> for an integer \<open>k\<close> of either sign.\<close>

definition py_take :: "int \<Rightarrow> 'a list \<Rightarrow> 'a list" where
  "py_take k xs = (if 0 \<le> k then take (nat k) xs else take (nat (int (length xs) + k)) xs)"

definition py_drop :: "int \<Rightarrow> 'a list \<Rightarrow> 'a list" where
  "py_drop k xs = (if 0 \<le> k then drop (nat k) xs else drop (nat (int (length xs) + k)) xs)"

text \<open>\<^verbatim>\<open>int.from_bytes(bs, "big")\<close>.\<close>

definition from_bytes_big :: "byte list \<Rightarrow> int" where
  "from_bytes_big bs = foldl (\<lambda>acc b. acc * 256 + uint b) 0 bs"

text \<open>\<^verbatim>\<open>struct.pack(">I", x)\<close> and \<^verbatim>\<open>struct.pack(">Q", x)\<close>: out of range raises \<^verbatim>\<open>struct.error\<close>.\<close>

definition be_u32 :: "int \<Rightarrow> py_error + byte list" where
  "be_u32 x = (if 0 \<le> x \<and> x < 2 ^ 32
     then Inr (map (\<lambda>k. word_of_int (drop_bit k x)) [24, 16, 8, 0])
     else Inl StructError)"

definition be_u64 :: "int \<Rightarrow> py_error + byte list" where
  "be_u64 x = (if 0 \<le> x \<and> x < 2 ^ 64
     then Inr (map (\<lambda>k. word_of_int (drop_bit k x)) [56, 48, 40, 32, 24, 16, 8, 0])
     else Inl StructError)"

section \<open>CRC-32C (l7\_sender.py, l7\_receiver.py)\<close>

definition CRC32C_POLY :: u32 where
  "CRC32C_POLY = 0x82F63B78"

text \<open>One pass of the inner loop that builds the table:
  \<^verbatim>\<open>crc = (crc >> 1) ^ _CRC32C_POLY if (crc & 1) else (crc >> 1)\<close>.\<close>

definition crc_shift :: "u32 \<Rightarrow> u32" where
  "crc_shift crc = (if crc AND 1 \<noteq> 0 then drop_bit 1 crc XOR CRC32C_POLY else drop_bit 1 crc)"

definition crc32c_table :: "u32 list" where
  "crc32c_table = map (\<lambda>i. (crc_shift ^^ 8) (of_nat i)) [0..<256]"

text \<open>The loop body of \<^verbatim>\<open>crc32c\<close>:
  \<^verbatim>\<open>crc = _crc32c_table[(crc ^ b) & 0xFF] ^ (crc >> 8)\<close>.\<close>

definition crc32c_update :: "u32 \<Rightarrow> byte \<Rightarrow> u32" where
  "crc32c_update crc b = crc32c_table ! unat ((crc XOR ucast b) AND 0xFF) XOR drop_bit 8 crc"

definition crc32c_init :: "byte list \<Rightarrow> u32 \<Rightarrow> u32" where
  "crc32c_init data init =
     fold (\<lambda>b crc. crc32c_update crc b) data (init XOR 0xFFFFFFFF) XOR 0xFFFFFFFF"

definition crc32c :: "byte list \<Rightarrow> u32" where
  "crc32c data = crc32c_init data 0"

text \<open>Flipping bit \<open>k\<close> of byte \<open>i\<close> of a byte string.\<close>

definition flip_bit_at :: "byte list \<Rightarrow> nat \<Rightarrow> nat \<Rightarrow> byte list" where
  "flip_bit_at U i k = U[i := (U ! i) XOR push_bit k 1]"

section \<open>Python library functions used by the packet tools\<close>

text \<open>
  \<^verbatim>\<open>int(s, base)\<close> on a string, after CPython's \<^verbatim>\<open>PyLong_FromString\<close>: surrounding
  white space is skipped, then an optional sign, then for base 16 (or base 0) an optional
  \<^verbatim>\<open>0x\<close> prefix, which may be followed by one underscore; digits may be separated by single
  underscores; in base 0 a decimal literal with a leading zero must be zero. \<open>None\<close> stands
  for \<^verbatim>\<open>ValueError\<close>. Bases other than 0, 10 and 16 are not used by the tools; in base 0
  only the decimal and hexadecimal forms are modelled.
\<close>

definition py_isspace :: "char \<Rightarrow> bool" where
  "py_isspace c = (let n = of_char c :: nat in
     (9 \<le> n \<and> n \<le> 13) \<or> (28 \<le> n \<and> n \<le> 32) \<or> n = 133 \<or> n = 160)"

definition py_strip :: "string \<Rightarrow> string" where
  "py_strip s = rev (dropWhile py_isspace (rev (dropWhile py_isspace s)))"

definition digit_val :: "char \<Rightarrow> nat option" where
  "digit_val c = (let n = of_char c :: nat in
     if 48 \<le> n \<and> n \<le> 57 then Some (n - 48)
     else if 97 \<le> n \<and> n \<le> 122 then Some (n - 87)
     else if 65 \<le> n \<and> n \<le> 90 then Some (n - 55)
     else None)"

text \<open>The digit loop: \<open>prev_us\<close> tells whether the previous character was an underscore,
  \<open>seen\<close> whether a digit has been read.\<close>

fun py_digits :: "nat \<Rightarrow> bool \<Rightarrow> bool \<Rightarrow> int \<Rightarrow> string \<Rightarrow> int option" where
  "py_digits base prev_us seen acc [] = (if prev_us \<or> \<not> seen then None else Some acc)"
| "py_digits base prev_us seen acc (c # cs) =
     (if c = CHR ''_'' then (if prev_us then None else py_digits base True seen acc cs)
      else case digit_val c of
        None \<Rightarrow> None
      | Some d \<Rightarrow> if d < base then py_digits base False True (acc * int base + int d) cs else None)"

definition has_hex_prefix :: "string \<Rightarrow> bool" where
  "has_hex_prefix s = (case s of c0 # c1 # _ \<Rightarrow> c0 = CHR ''0'' \<and> (c1 = CHR ''x'' \<or> c1 = CHR ''X'') | _ \<Rightarrow> False)"

definition py_int_unsigned :: "nat \<Rightarrow> string \<Rightarrow> int option" where
  "py_int_unsigned base s =
     (let hex = ((base = 16 \<or> base = 0) \<and> has_hex_prefix s);
          b = (if hex then 16 else if base = 0 then 10 else base);
          s1 = (if hex then drop 2 s else s);
          s2 = (if hex \<and> s1 \<noteq> [] \<and> hd s1 = CHR ''_'' then tl s1 else s1)
      in if s2 \<noteq> [] \<and> hd s2 = CHR ''_'' then None
         else case py_digits b False False 0 s2 of
           None \<Rightarrow> None
         | Some v \<Rightarrow> if base = 0 \<and> \<not> hex \<and> s \<noteq> [] \<and> hd s = CHR ''0'' \<and> v \<noteq> 0 then None else Some v)"

definition py_int :: "nat \<Rightarrow> string \<Rightarrow> int option" where
  "py_int base s =
     (case py_strip s of
        [] \<Rightarrow> None
      | c # cs \<Rightarrow>
          if c = CHR ''+'' then py_int_unsigned base cs
          else if c = CHR ''-'' then map_option uminus (py_int_unsigned base cs)
          else py_int_unsigned base (c # cs))"

text \<open>\<^verbatim>\<open>bytes.fromhex(s)\<close> (Python 3.7 and later): ASCII white space is skipped between
  byte pairs, each pair is two hexadecimal digits.\<close>

definition hex_val :: "char \<Rightarrow> nat option" where
  "hex_val c = (case digit_val c of Some d \<Rightarrow> if d < 16 then Some d else None | None \<Rightarrow> None)"

definition ascii_space :: "char \<Rightarrow> bool" where
  "ascii_space c = (let n = of_char c :: nat in (9 \<le> n \<and> n \<le> 13) \<or> n = 32)"

fun bytes_fromhex :: "string \<Rightarrow> byte list option" where
  "bytes_fromhex [] = Some []"
| "bytes_fromhex [c] = (if ascii_space c then Some [] else None)"
| "bytes_fromhex (c # d # cs) =
     (if ascii_space c then bytes_fromhex (d # cs)
      else case (hex_val c, hex_val d) of
        (Some h, Some l) \<Rightarrow> map_option ((#) (of_nat (16 * h + l))) (bytes_fromhex cs)
      | _ \<Rightarrow> None)"

text \<open>\<^verbatim>\<open>str.upper()\<close> on the ASCII letters (no other character maps to an ASCII letter, so
  the comparison with \<^verbatim>\<open>"TC"\<close> is exact), and \<^verbatim>\<open>str.encode("ascii", errors="replace")\<close>.\<close>

definition py_upper :: "string \<Rightarrow> string" where
  "py_upper s = map (\<lambda>c. let n = of_char c :: nat in
     if 97 \<le> n \<and> n \<le> 122 then char_of (n - 32) else c) s"

definition encode_ascii_replace :: "string \<Rightarrow> byte list" where
  "encode_ascii_replace s = map (\<lambda>c. let n = of_char c :: nat in
     if n < 128 then of_nat n else 0x3F) s"

text \<open>Decimal and hexadecimal formatting: \<^verbatim>\<open>str(n)\<close> for \<open>n \<ge> 0\<close> and \<^verbatim>\<open>f"0x{v:08x}"\<close>.\<close>

definition hex_digit :: "nat \<Rightarrow> char" where
  "hex_digit d = (if d < 10 then char_of (48 + d) else char_of (87 + d))"

fun py_str_nat :: "nat \<Rightarrow> string" where
  "py_str_nat n = (if n < 10 then [hex_digit n] else py_str_nat (n div 10) @ [hex_digit (n mod 10)])"

declare py_str_nat.simps [simp del]

fun hex_digits :: "nat \<Rightarrow> string" where
  "hex_digits n = (if n < 16 then [hex_digit n] else hex_digits (n div 16) @ [hex_digit (n mod 16)])"

declare hex_digits.simps [simp del]

definition fmt_0x08x :: "int \<Rightarrow> string" where
  "fmt_0x08x v = (let ds = hex_digits (nat v) in ''0x'' @ replicate (8 - length ds) CHR ''0'' @ ds)"

section \<open>Application profiles (apps.json)\<close>

text \<open>
  A profile is the JSON object of the docstring of \<^verbatim>\<open>l7_sender.py\<close>; an absent key is
  \<open>None\<close>. The field \<^verbatim>\<open>apid\<close> is an integer or a string.
\<close>

datatype jval = JInt int | JStr string

record sec_hdr_spec =
  sh_mode :: "string option"
  sh_hex :: "string option"

record body_spec =
  b_mode :: "string option"
  b_text :: "string option"
  b_pad_byte :: "string option"
  b_pattern16 :: "bool option"
  b_extra_bytes :: "int option"
  b_path :: "string option"

record profile =
  p_name :: "string option"
  p_apid :: "jval option"
  p_type :: "string option"
  p_sec_hdr :: "sec_hdr_spec option"
  p_body :: "body_spec option"
  p_use_mic :: "bool option"
  p_data_field_len :: "int option"

text \<open>What the sender reads from outside: the clock (\<^verbatim>\<open>time.time_ns()\<close>, and the whole
  seconds and microseconds of \<^verbatim>\<open>time.time()\<close>) and the files of \<^verbatim>\<open>body.mode = file\<close>.\<close>

record sender_env =
  time_ns :: int
  time_s :: int
  time_us :: int
  read_file :: "string \<Rightarrow> byte list option"

section \<open>The sender (l7\_sender.py)\<close>

definition pack_primary_header ::
  "int \<Rightarrow> int \<Rightarrow> int \<Rightarrow> int \<Rightarrow> int \<Rightarrow> int \<Rightarrow> int \<Rightarrow> py_error + byte list" where
  "pack_primary_header version pkt_type shf apid seq_flags seq_count len =
     (if \<not> (0 \<le> version \<and> version \<le> 7) then Inl AssertionError
      else if \<not> (pkt_type = 0 \<or> pkt_type = 1) then Inl AssertionError
      else if \<not> (shf = 0 \<or> shf = 1) then Inl AssertionError
      else if \<not> (0 \<le> apid \<and> apid \<le> 0x7FF) then Inl AssertionError
      else if \<not> (0 \<le> seq_flags \<and> seq_flags \<le> 3) then Inl AssertionError
      else if \<not> (0 \<le> seq_count \<and> seq_count \<le> 0x3FFF) then Inl AssertionError
      else if \<not> (0 \<le> len \<and> len \<le> 0xFFFF) then Inl AssertionError
      else
        let w1 = push_bit 13 version OR push_bit 12 pkt_type OR push_bit 11 shf OR apid;
            w2 = push_bit 14 seq_flags OR seq_count;
            w3 = len
        in Inr [word_of_int (drop_bit 8 w1), word_of_int w1,
                word_of_int (drop_bit 8 w2), word_of_int w2,
                word_of_int (drop_bit 8 w3), word_of_int w3])"

definition make_time_tag_ns8 :: "sender_env \<Rightarrow> py_error + byte list" where
  "make_time_tag_ns8 env = be_u64 (time_ns env)"

definition make_sec_hdr :: "sender_env \<Rightarrow> sec_hdr_spec option \<Rightarrow> py_error + byte list" where
  "make_sec_hdr env spec =
     (case spec of
        None \<Rightarrow> Inr []
      | Some sp \<Rightarrow>
          (case sh_mode sp of
             None \<Rightarrow> Inr []
           | Some mode \<Rightarrow>
               if mode = ''none'' then Inr []
               else if mode = ''ns8'' then make_time_tag_ns8 env
               else if mode = ''sec_us32'' then
                 (case be_u32 (time_s env) of
                    Inl e \<Rightarrow> Inl e
                  | Inr a \<Rightarrow> (case be_u32 (time_us env) of Inl e \<Rightarrow> Inl e | Inr b \<Rightarrow> Inr (a @ b)))
               else if mode = ''fixed'' then
                 (let hx = (case sh_hex sp of None \<Rightarrow> [] | Some h \<Rightarrow> h)
                  in if length hx mod 2 \<noteq> 0 then Inl ValueError
                     else case bytes_fromhex hx of None \<Rightarrow> Inl ValueError | Some bs \<Rightarrow> Inr bs)
               else Inl ValueError))"

definition body_from_spec :: "sender_env \<Rightarrow> body_spec option \<Rightarrow> int \<Rightarrow> py_error + byte list" where
  "body_from_spec env spec counter =
     (let mode = (case spec of None \<Rightarrow> ''pattern''
                  | Some sp \<Rightarrow> (case b_mode sp of None \<Rightarrow> ''pattern'' | Some m \<Rightarrow> m))
      in if mode = ''ascii'' then
           Inr (encode_ascii_replace
                  (case Option.bind spec b_text of None \<Rightarrow> [] | Some t \<Rightarrow> t))
         else if mode = ''pattern'' then
           (let p16 = (case Option.bind spec b_pattern16 of None \<Rightarrow> True | Some b \<Rightarrow> b);
                extra = (case Option.bind spec b_extra_bytes of None \<Rightarrow> 0 | Some n \<Rightarrow> n)
            in Inr ((if p16 then map of_nat [0..<16] else [])
                    @ (if extra > 0 then map of_nat [0..<nat extra] else [])))
         else if mode = ''file'' then
           (let p = (case Option.bind spec b_path of None \<Rightarrow> [] | Some q \<Rightarrow> q)
            in if p = [] then Inl ValueError
               else case read_file env p of None \<Rightarrow> Inl OSError | Some bs \<Rightarrow> Inr bs)
         else Inl ValueError)"

definition pad_or_truncate_to_len :: "byte list \<Rightarrow> int \<Rightarrow> int \<Rightarrow> py_error + byte list" where
  "pad_or_truncate_to_len user_no_mic desired_len_without_mic pad_byte =
     (let cur = int (length user_no_mic)
      in if cur = desired_len_without_mic then Inr user_no_mic
         else if cur < desired_len_without_mic then
           (if 0 \<le> pad_byte \<and> pad_byte < 256
            then Inr (user_no_mic @ replicate (nat (desired_len_without_mic - cur)) (word_of_int pad_byte))
            else Inl ValueError)
         else Inr (py_take desired_len_without_mic user_no_mic))"

definition parse_apid :: "jval \<Rightarrow> py_error + int" where
  "parse_apid v = (case v of
      JInt n \<Rightarrow> Inr n
    | JStr s \<Rightarrow> (case py_int 0 s of None \<Rightarrow> Inl ValueError | Some n \<Rightarrow> Inr n))"

text \<open>The padded user bytes without MIC (\<^verbatim>\<open>user_wo_mic_padded\<close>), with the secondary header
  they follow: lines 180 to 207 of \<^verbatim>\<open>build_packet_for_profile\<close>, up to the MIC.\<close>

definition user_wo_mic_padded ::
  "sender_env \<Rightarrow> profile \<Rightarrow> int \<Rightarrow> py_error + (int \<times> int \<times> byte list \<times> byte list)" where
  "user_wo_mic_padded env prof counter =
     (case p_apid prof of
        None \<Rightarrow> Inl KeyError
      | Some av \<Rightarrow>
     (case parse_apid av of
        Inl e \<Rightarrow> Inl e
      | Inr apid \<Rightarrow>
     (let pkt_type_bit = (if py_upper (case p_type prof of None \<Rightarrow> ''TC'' | Some t \<Rightarrow> t) = ''TC''
                          then 1 else 0)
      in case make_sec_hdr env (p_sec_hdr prof) of
        Inl e \<Rightarrow> Inl e
      | Inr sec_hdr \<Rightarrow>
     (case body_from_spec env (p_body prof) counter of
        Inl e \<Rightarrow> Inl e
      | Inr user_no_mic \<Rightarrow>
     (let pad_byte =
            (case p_body prof of
               None \<Rightarrow> 0
             | Some bspec \<Rightarrow>
                 if b_mode bspec = Some ''ascii'' then
                   (case py_int 16 (case b_pad_byte bspec of None \<Rightarrow> ''00'' | Some h \<Rightarrow> h) of
                      None \<Rightarrow> 0 | Some n \<Rightarrow> n)
                 else 0);
          use_mic = (case p_use_mic prof of None \<Rightarrow> False | Some b \<Rightarrow> b);
          data_field_len =
            (case p_data_field_len prof of
               None \<Rightarrow> int (length sec_hdr) + int (length user_no_mic) + (if use_mic then 4 else 0)
             | Some n \<Rightarrow> n);
          desired_user_len_wo_mic = data_field_len - int (length sec_hdr) - (if use_mic then 4 else 0)
      in if desired_user_len_wo_mic < 0 then Inl ValueError
         else case pad_or_truncate_to_len user_no_mic desired_user_len_wo_mic pad_byte of
           Inl e \<Rightarrow> Inl e
         | Inr padded \<Rightarrow> Inr (apid, pkt_type_bit, sec_hdr, padded))))))"

text \<open>\<^verbatim>\<open>build_packet_for_profile(pstate, counter)\<close>; \<open>seq\<close> is \<^verbatim>\<open>pstate.seq\<close>. The result is
  \<^verbatim>\<open>(pkt, total_len, mic_hex)\<close>.\<close>

definition build_packet_for_profile ::
  "sender_env \<Rightarrow> profile \<Rightarrow> int \<Rightarrow> int \<Rightarrow> py_error + (byte list \<times> nat \<times> string)" where
  "build_packet_for_profile env prof seq counter =
     (case user_wo_mic_padded env prof counter of
        Inl e \<Rightarrow> Inl e
      | Inr (apid, pkt_type_bit, sec_hdr, padded) \<Rightarrow>
     (let use_mic = (case p_use_mic prof of None \<Rightarrow> False | Some b \<Rightarrow> b)
      in case (if use_mic
               then (let mic_val = crc32c padded
                     in case be_u32 (uint mic_val) of
                          Inl e \<Rightarrow> Inl e
                        | Inr m \<Rightarrow> Inr (fmt_0x08x (uint mic_val), padded @ m))
               else Inr ([], padded)) of
        Inl e \<Rightarrow> Inl e
      | Inr (mic_hex, user) \<Rightarrow>
     (let shf = (if length sec_hdr > 0 then 1 else 0);
          version = 0;
          seq_flags = 3;
          seq_count = seq AND 0x3FFF;
          prim_len = (int (length sec_hdr) + int (length user)) - 1
      in case pack_primary_header version pkt_type_bit shf apid seq_flags seq_count prim_len of
           Inl e \<Rightarrow> Inl e
         | Inr hdr \<Rightarrow> (let pkt = hdr @ sec_hdr @ user in Inr (pkt, length pkt, mic_hex)))))"

section \<open>The receiver (l7\_receiver.py)\<close>

text \<open>The dictionary returned by \<^verbatim>\<open>parse_primary_header\<close>.\<close>

record primary_header =
  ph_version :: int
  ph_type :: int
  ph_shf :: int
  ph_apid :: int
  ph_seq_flags :: int
  ph_seq_count :: int
  ph_data_field_len :: int
  ph_total_len :: int

definition parse_primary_header :: "byte list \<Rightarrow> py_error + primary_header" where
  "parse_primary_header hdr =
     (if length hdr < 6 then Inl ValueError
      else
        let w1 = from_bytes_big (take 2 hdr);
            w2 = from_bytes_big (take 2 (drop 2 hdr));
            w3 = from_bytes_big (take 2 (drop 4 hdr))
        in Inr \<lparr> ph_version = drop_bit 13 w1 AND 0x7,
                 ph_type = drop_bit 12 w1 AND 0x1,
                 ph_shf = drop_bit 11 w1 AND 0x1,
                 ph_apid = w1 AND 0x7FF,
                 ph_seq_flags = drop_bit 14 w2 AND 0x3,
                 ph_seq_count = w2 AND 0x3FFF,
                 ph_data_field_len = w3,
                 ph_total_len = 6 + (w3 + 1) \<rparr>)"

text \<open>\<^verbatim>\<open>mode.startswith("fixed:")\<close> and \<^verbatim>\<open>mode.split(":", 1)[1]\<close>.\<close>

definition sec_len_from_mode :: "string \<Rightarrow> py_error + int" where
  "sec_len_from_mode mode =
     (if mode = ''none'' \<or> mode = ''auto'' then Inr 0
      else if mode = ''ns8'' then Inr 8
      else if mode = ''sec_us32'' then Inr 8
      else if take 6 mode = ''fixed:'' then
        (case py_int 10 (drop 6 mode) of None \<Rightarrow> Inl ValueError | Some n \<Rightarrow> Inr n)
      else Inl ValueError)"

text \<open>\<^verbatim>\<open>expected_sec_mode_and_mic_for_apid\<close>: the second component is \<^verbatim>\<open>None\<close>, \<^verbatim>\<open>True\<close> or
  \<^verbatim>\<open>False\<close>. The call of \<^verbatim>\<open>bytes.fromhex\<close> is not guarded, so its \<^verbatim>\<open>ValueError\<close> leaves
  the function.\<close>

definition expected_sec_mode_and_mic_for_apid ::
  "int \<Rightarrow> (int \<rightharpoonup> profile) \<Rightarrow> py_error + (string \<times> bool option)" where
  "expected_sec_mode_and_mic_for_apid apid apid_map =
     (case apid_map apid of
        None \<Rightarrow> Inr (''auto'', None)
      | Some prof \<Rightarrow>
          let use_mic = (case p_use_mic prof of None \<Rightarrow> False | Some b \<Rightarrow> b);
              mode = (case Option.bind (p_sec_hdr prof) sh_mode of None \<Rightarrow> ''none'' | Some m \<Rightarrow> m)
          in if mode = ''fixed'' then
               (let hx = (case Option.bind (p_sec_hdr prof) sh_hex of None \<Rightarrow> [] | Some h \<Rightarrow> h)
                in case bytes_fromhex hx of
                     None \<Rightarrow> Inl ValueError
                   | Some bs \<Rightarrow> Inr (''fixed:'' @ py_str_nat (length bs), Some use_mic))
             else if mode = ''none'' \<or> mode = ''ns8'' \<or> mode = ''sec_us32'' then Inr (mode, Some use_mic)
             else Inr (''auto'', Some use_mic))"

text \<open>What \<^verbatim>\<open>process_packet\<close> logs for one packet: the columns \<^verbatim>\<open>sec_mode\<close>, \<^verbatim>\<open>sec_len\<close>,
  \<^verbatim>\<open>mic_state\<close>, \<^verbatim>\<open>mic_value\<close> of the CSV row, with the secondary header and the user bytes
  (the row holds \<^verbatim>\<open>len(user)\<close>). Writing the files and the row is left out.\<close>

record packet_report =
  r_sec_mode :: string
  r_sec_len :: int
  r_sec_hdr :: "byte list"
  r_mic_state :: string
  r_mic_hex :: string
  r_user :: "byte list"

text \<open>Lines 204 to 208: the secondary-header mode and the MIC expectation for this APID.\<close>

definition resolve_sec_mode ::
  "string \<Rightarrow> int \<Rightarrow> (int \<rightharpoonup> profile) \<Rightarrow> py_error + (string \<times> bool option)" where
  "resolve_sec_mode sec_mode_cli apid apid_map =
     (if sec_mode_cli = ''auto''
      then expected_sec_mode_and_mic_for_apid apid apid_map
      else Inr (sec_mode_cli, None))"

text \<open>Lines 226 to 252: MIC detection on the bytes after the secondary header
  (\<^verbatim>\<open>user_and_maybe_mic\<close>); the result is \<^verbatim>\<open>(mic_state, mic_hex, user)\<close>.\<close>

definition mic_detect :: "string \<Rightarrow> bool option \<Rightarrow> byte list \<Rightarrow> string \<times> string \<times> byte list" where
  "mic_detect mic_mode mic_expect user_and_maybe_mic =
     (if mic_mode = ''off'' then (''OFF'', [], user_and_maybe_mic)
      else if length user_and_maybe_mic \<ge> 4 then
        (let candidate_user = py_take (- 4) user_and_maybe_mic;
             candidate_mic = from_bytes_big (py_drop (- 4) user_and_maybe_mic);
             calc = uint (crc32c candidate_user)
         in if candidate_mic = calc then (''OK'', fmt_0x08x candidate_mic, candidate_user)
            else if mic_mode = ''on'' \<or> mic_expect = Some True
                 then (''BAD'', fmt_0x08x candidate_mic, user_and_maybe_mic)
                 else (''none'', [], user_and_maybe_mic))
      else if mic_mode = ''on'' \<or> mic_expect = Some True
           then (''SHORT'', [], user_and_maybe_mic)
           else (''none'', [], user_and_maybe_mic))"

definition process_packet ::
  "byte list \<Rightarrow> primary_header \<Rightarrow> string \<Rightarrow> string \<Rightarrow> (int \<rightharpoonup> profile) \<Rightarrow> py_error + packet_report" where
  "process_packet pkt ph sec_mode_cli mic_mode apid_map =
     (case resolve_sec_mode sec_mode_cli (ph_apid ph) apid_map of
        Inl e \<Rightarrow> Inl e
      | Inr (sec_mode, mic_expect) \<Rightarrow>
     (let sec_len0 = (if ph_shf ph = 1
                      then (case sec_len_from_mode sec_mode of Inl e \<Rightarrow> 0 | Inr n \<Rightarrow> n)
                      else 0);
          data_field = drop 6 pkt;
          sec_len = (if sec_len0 > int (length data_field) then 0 else sec_len0);
          sec_hdr = py_take sec_len data_field;
          user_and_maybe_mic = py_drop sec_len data_field;
          (mic_state, mic_hex, user) = mic_detect mic_mode mic_expect user_and_maybe_mic
      in Inr \<lparr> r_sec_mode = sec_mode, r_sec_len = sec_len, r_sec_hdr = sec_hdr,
               r_mic_state = mic_state, r_mic_hex = mic_hex, r_user = user \<rparr>))"

text \<open>The profile and the clock of the first end-to-end scenario.\<close>

definition c3_profile :: profile where
  "c3_profile =
     \<lparr> p_name = Some ''CFDP_META'', p_apid = Some (JStr ''0x0B3''), p_type = Some ''TC'',
       p_sec_hdr = Some \<lparr> sh_mode = Some ''ns8'', sh_hex = None \<rparr>,
       p_body = Some \<lparr> b_mode = Some ''ascii'', b_text = Some ''0.21/data/'',
                        b_pad_byte = Some ''00'', b_pattern16 = None, b_extra_bytes = None,
                        b_path = None \<rparr>,
       p_use_mic = Some True, p_data_field_len = Some 138 \<rparr>"

definition c3_user :: "byte list" where
  "c3_user = encode_ascii_replace ''0.21/data/'' @ replicate 116 0"

definition c3_env :: sender_env where
  "c3_env = \<lparr> time_ns = 1700000000000000000, time_s = 1700000000, time_us = 0,
              read_file = (\<lambda>p. None) \<rparr>"


section \<open>Tagged streams of the flowgraph blocks\<close>

text \<open>
  A stream tag carries an offset, a key and a value; the blocks only read integer values
  (\<^verbatim>\<open>pmt.is_integer\<close>, \<^verbatim>\<open>pmt.to_long\<close>). In the models the tags handed to a call of
  \<^verbatim>\<open>general_work\<close> or \<^verbatim>\<open>work\<close> have offsets relative to the first item of the input window
  (\<^verbatim>\<open>t.offset - nitems_read(0)\<close>), and the tags a call adds have offsets relative to the first
  item it writes (\<^verbatim>\<open>offset - nitems_written(0)\<close>). Every block here is built with its default
  \<^verbatim>\<open>len_tag_key\<close>.
\<close>

datatype pmt = PInt int | POther

record tag =
  t_offset :: nat
  t_key :: string
  t_value :: pmt

definition len_tag_key :: string where
  "len_tag_key = ''packet_len''"

text \<open>\<^verbatim>\<open>get_tags_in_range(0, nread, nread + n_input)\<close>, optionally restricted to one key.\<close>

definition tags_in_window :: "tag list \<Rightarrow> nat \<Rightarrow> tag list" where
  "tags_in_window tags n_input = filter (\<lambda>t. t_offset t < n_input) tags"

definition tags_in_window_key :: "tag list \<Rightarrow> nat \<Rightarrow> string \<Rightarrow> tag list" where
  "tags_in_window_key tags n_input key = filter (\<lambda>t. t_key t = key) (tags_in_window tags n_input)"

section \<open>Randomizer (sync\_coding\_v0\_epy\_block\_1.py)\<close>

record randomizer =
  rnd_seed :: int
  rnd_restart_per_frame :: bool
  rnd_enabled :: bool
  rnd_lfsr :: int
  rnd_frame_bytes_left :: int

text \<open>The constructor: \<^verbatim>\<open>self.seed = int(seed) & 0x7FFF\<close>, \<^verbatim>\<open>self._lfsr = self.seed\<close>.\<close>

definition randomizer_init :: "int \<Rightarrow> bool \<Rightarrow> bool \<Rightarrow> randomizer" where
  "randomizer_init seed restart_per_frame enabled =
     \<lparr> rnd_seed = seed AND 0x7FFF, rnd_restart_per_frame = restart_per_frame,
       rnd_enabled = enabled, rnd_lfsr = seed AND 0x7FFF, rnd_frame_bytes_left = 0 \<rparr>"

definition step_lfsr :: "int \<Rightarrow> int" where
  "step_lfsr state =
     (let new_bit = (drop_bit 14 state XOR drop_bit 13 state) AND 0x1
      in (push_bit 1 state AND 0x7FFF) OR new_bit)"

text \<open>The loop of \<^verbatim>\<open>_next_pn_byte\<close>, with the number of passes left; the result is the
  byte and the new register.\<close>

fun pn_loop :: "nat \<Rightarrow> int \<Rightarrow> int \<Rightarrow> int \<times> int" where
  "pn_loop 0 out_byte lfsr = (out_byte, lfsr)"
| "pn_loop (Suc k) out_byte lfsr =
     (let pn_bit = drop_bit 14 lfsr AND 0x1
      in pn_loop k ((push_bit 1 out_byte OR pn_bit) AND 0xFF) (step_lfsr lfsr))"

definition next_pn_byte :: "int \<Rightarrow> int \<times> int" where
  "next_pn_byte lfsr = pn_loop 8 0 lfsr"

text \<open>\<^verbatim>\<open>for i in range(to_rand): out[produced+i] = inp[cursor+i] ^ self._next_pn_byte()\<close>.\<close>

fun rand_bytes :: "byte list \<Rightarrow> int \<Rightarrow> byte list \<times> int" where
  "rand_bytes [] lfsr = ([], lfsr)"
| "rand_bytes (b # bs) lfsr =
     (let (p, lfsr') = next_pn_byte lfsr;
          (rest, lfsr'') = rand_bytes bs lfsr'
      in ((b XOR word_of_int p) # rest, lfsr''))"

text \<open>The state of one call of \<^verbatim>\<open>general_work\<close>: the block, the output written so far and
  the tags added so far. \<^verbatim>\<open>produced\<close>, \<^verbatim>\<open>consumed\<close> and \<^verbatim>\<open>cursor\<close> are always equal in the
  source; they are the length of the output.\<close>

record rnd_call =
  rc_blk :: randomizer
  rc_out :: "byte list"
  rc_tags :: "tag list"

definition process_chunk :: "byte list \<Rightarrow> nat \<Rightarrow> rnd_call \<Rightarrow> int \<Rightarrow> rnd_call" where
  "process_chunk inp n_out c chunk_len =
     (if chunk_len \<le> 0 then c
      else
        let produced = length (rc_out c);
            n = min chunk_len (int n_out - int produced)
        in if n \<le> 0 then c
           else
             let blk = rc_blk c;
                 src = take (nat n) (drop produced inp)
             in if \<not> rnd_enabled blk \<or> rnd_frame_bytes_left blk \<le> 0
                then c\<lparr> rc_out := rc_out c @ src \<rparr>
                else
                  let to_rand = min n (rnd_frame_bytes_left blk);
                      (rnd, lfsr') = rand_bytes (take (nat to_rand) src) (rnd_lfsr blk)
                  in c\<lparr> rc_out := rc_out c @ rnd @ drop (nat to_rand) src,
                        rc_blk := blk\<lparr> rnd_lfsr := lfsr',
                                          rnd_frame_bytes_left := rnd_frame_bytes_left blk - to_rand \<rparr> \<rparr>)"

text \<open>The loop over the frame starts, with its \<^verbatim>\<open>break\<close>.\<close>

fun walk_starts :: "byte list \<Rightarrow> nat \<Rightarrow> (nat \<times> int) list \<Rightarrow> rnd_call \<Rightarrow> rnd_call" where
  "walk_starts inp n_out [] c = c"
| "walk_starts inp n_out ((rel_off, frame_len) # starts) c =
     (let pre = int rel_off - int (length (rc_out c));
          c1 = (if pre > 0 then process_chunk inp n_out c pre else c)
      in if pre > 0 \<and> length (rc_out c1) \<ge> n_out then c1
         else
           let blk = rc_blk c1;
               blk1 = (if rnd_restart_per_frame blk then blk\<lparr> rnd_lfsr := rnd_seed blk \<rparr> else blk);
               blk2 = blk1\<lparr> rnd_frame_bytes_left := frame_len \<rparr>;
               c2 = c1\<lparr> rc_blk := blk2,
                        rc_tags := rc_tags c1 @ [\<lparr> t_offset = length (rc_out c1), t_key = len_tag_key,
                                                   t_value = PInt frame_len \<rparr>] \<rparr>
           in walk_starts inp n_out starts c2)"

text \<open>\<^verbatim>\<open>_consume_length_tags\<close>: the length tags with a positive integer value, sorted by
  offset.\<close>

definition consume_length_tags :: "tag list \<Rightarrow> nat \<Rightarrow> (nat \<times> int) list" where
  "consume_length_tags tags n_input =
     sort_key fst
       (List.map_filter
          (\<lambda>t. case t_value t of PInt L \<Rightarrow> if L > 0 then Some (t_offset t, L) else None | POther \<Rightarrow> None)
          (tags_in_window_key tags n_input len_tag_key))"

text \<open>\<^verbatim>\<open>_forward_tags\<close>: every other tag of the window keeps its relative offset.\<close>

definition forward_tags :: "tag list \<Rightarrow> nat \<Rightarrow> tag list" where
  "forward_tags tags n_input = filter (\<lambda>t. t_key t \<noteq> len_tag_key) (tags_in_window tags n_input)"

text \<open>\<^verbatim>\<open>general_work\<close> of the randomizer: the block after the call, the bytes produced, the
  tags added and the number of input items consumed.\<close>

definition rnd_general_work ::
  "randomizer \<Rightarrow> byte list \<Rightarrow> tag list \<Rightarrow> nat \<Rightarrow> randomizer \<times> byte list \<times> tag list \<times> nat" where
  "rnd_general_work blk inp tags n_out =
     (let n_in = length inp
      in if n_in = 0 \<or> n_out = 0 then (blk, [], [], 0)
         else
           let c0 = \<lparr> rc_blk = blk, rc_out = [], rc_tags = forward_tags tags n_in \<rparr>;
               starts = consume_length_tags tags n_in;
               c1 = walk_starts inp n_out starts c0;
               c2 = (if length (rc_out c1) < n_out \<and> length (rc_out c1) < n_in
                     then process_chunk inp n_out c1 (int n_in - int (length (rc_out c1)))
                     else c1)
           in (rc_blk c2, rc_out c2, rc_tags c2, length (rc_out c2)))"

text \<open>One frame through the stage: the frame arrives in one call with its length tag on the
  first byte and room for the whole frame in the output buffer.\<close>

definition frame_tag :: "nat \<Rightarrow> tag list" where
  "frame_tag n = [\<lparr> t_offset = 0, t_key = len_tag_key, t_value = PInt (int n) \<rparr>]"

definition randomize :: "byte list \<Rightarrow> int \<Rightarrow> byte list" where
  "randomize frame seed =
     fst (snd (rnd_general_work (randomizer_init seed True True) frame (frame_tag (length frame))
                 (length frame)))"


section \<open>SPP length tagger (default\_epy\_block\_6.py)\<close>

text \<open>The block keeps its buffer and its own count of the items written (\<^verbatim>\<open>_abs_out\<close>); the
  tags it adds carry that absolute count as offset.\<close>

record spp_tagger =
  spp_buf :: "byte list"
  spp_abs_out :: nat

record spp_call =
  sc_blk :: spp_tagger
  sc_out :: "byte list"
  sc_tags :: "tag list"

text \<open>The \<^verbatim>\<open>while True\<close> loop over complete packets; \<^verbatim>\<open>produced\<close> is the length of the
  output written in this call.\<close>

function spp_packets :: "nat \<Rightarrow> spp_call \<Rightarrow> spp_call" where
  "spp_packets n_out c =
     (let buf = spp_buf (sc_blk c)
      in if length buf < 6 then c
         else
           let pkt_len_field = push_bit 8 (unat (buf ! 4)) OR unat (buf ! 5);
               total_len = 6 + (pkt_len_field + 1)
           in if length buf < total_len then c
              else
                let c1 = c\<lparr> sc_tags := sc_tags c @ [\<lparr> t_offset = spp_abs_out (sc_blk c),
                                                         t_key = len_tag_key,
                                                         t_value = PInt (int total_len) \<rparr>] \<rparr>;
                    n = min (int n_out - int (length (sc_out c))) (int total_len)
                in if n < int total_len then c1
                   else spp_packets n_out
                          (c1\<lparr> sc_out := sc_out c @ take total_len buf,
                               sc_blk := \<lparr> spp_buf = drop total_len buf,
                                           spp_abs_out = spp_abs_out (sc_blk c) + total_len \<rparr> \<rparr>))"
  by pat_completeness auto
termination
  by (relation "measure (\<lambda>(n_out, c). length (spp_buf (sc_blk c)))") auto

declare spp_packets.simps [simp del]

definition spp_general_work ::
  "spp_tagger \<Rightarrow> byte list \<Rightarrow> nat \<Rightarrow> spp_tagger \<times> byte list \<times> tag list \<times> nat" where
  "spp_general_work blk inp n_out =
     (let c0 = \<lparr> sc_blk = blk\<lparr> spp_buf := spp_buf blk @ inp \<rparr>, sc_out = [], sc_tags = [] \<rparr>;
          c1 = spp_packets n_out c0;
          buf = spp_buf (sc_blk c1);
          spill = min (int n_out - int (length (sc_out c1))) (int (length buf));
          c2 = (if spill \<noteq> 0
                then c1\<lparr> sc_out := sc_out c1 @ py_take spill buf,
                          sc_blk := \<lparr> spp_buf = py_drop spill buf,
                                      spp_abs_out = nat (int (spp_abs_out (sc_blk c1)) + spill) \<rparr> \<rparr>
                else c1)
      in (sc_blk c2, sc_out c2, sc_tags c2, length inp))"

section \<open>TM framer (sync\_coding\_v0\_epy\_block\_0.py)\<close>

text \<open>An entry of \<^verbatim>\<open>_spp_queue\<close>, also the value of \<^verbatim>\<open>_cur_pkt\<close>.\<close>

record spp =
  pk_data :: "byte list"
  pk_pos :: nat
  pk_len :: nat

record framer =
  scid :: int
  vcid :: int
  ocf_present :: bool
  include_fecf :: bool
  emit_idle :: bool
  idle_fill :: int
  frame_len :: nat
  tfdf_len :: nat
  mc_cnt :: int
  vc_cnt :: int
  inbuf :: "byte list"
  pending_tags :: "(int \<times> int) list"
  spp_queue :: "spp list"
  cur_pkt :: "spp option"

text \<open>The constructor; its \<^verbatim>\<open>assert\<close> is the error.\<close>

definition framer_init ::
  "int \<Rightarrow> int \<Rightarrow> bool \<Rightarrow> nat \<Rightarrow> bool \<Rightarrow> int \<Rightarrow> bool \<Rightarrow> py_error + framer" where
  "framer_init scid0 vcid0 ocf frame_len0 fecf idle_fill0 emit_idle0 =
     (let header_len = 6; fecf_len = (if fecf then 2 else 0)
      in if \<not> (frame_len0 \<ge> header_len + fecf_len + 1) then Inl AssertionError
         else Inr \<lparr> scid = scid0 AND 0x3FF, vcid = vcid0 AND 0x7, ocf_present = ocf,
                    include_fecf = fecf, emit_idle = emit_idle0, idle_fill = idle_fill0 AND 0xFF,
                    frame_len = frame_len0, tfdf_len = frame_len0 - header_len - fecf_len,
                    mc_cnt = 0, vc_cnt = 0, inbuf = [], pending_tags = [], spp_queue = [],
                    cur_pkt = None \<rparr>)"

text \<open>\<^verbatim>\<open>_crc16_ibm\<close>: the register is masked to 16 bits in the source, here it is a 16-bit
  word.\<close>

fun crc16_bits :: "nat \<Rightarrow> 16 word \<Rightarrow> 16 word" where
  "crc16_bits 0 crc = crc"
| "crc16_bits (Suc k) crc =
     crc16_bits k (if crc AND 0x8000 \<noteq> 0 then push_bit 1 crc XOR 0x1021 else push_bit 1 crc)"

definition crc16_ibm :: "byte list \<Rightarrow> 16 word" where
  "crc16_ibm data = fold (\<lambda>b crc. crc16_bits 8 (crc XOR push_bit 8 (ucast b))) data 0xFFFF"

definition pack_tm_primary_header :: "framer \<Rightarrow> int \<Rightarrow> byte list" where
  "pack_tm_primary_header blk fhp =
     (let tfvn = 0; sync_flag = 0; sec_hdr_flag = 0; pkt_order_flag = 0; seg_len_id = 0;
          word0 = push_bit 14 (tfvn AND 0x3) OR push_bit 4 (scid blk AND 0x3FF)
                  OR push_bit 1 (vcid blk AND 0x7) OR (if ocf_present blk then 1 else 0);
          b0 = drop_bit 8 word0 AND 0xFF;
          b1 = word0 AND 0xFF;
          dfs = push_bit 15 (sec_hdr_flag AND 1) OR push_bit 14 (sync_flag AND 1)
                OR push_bit 13 (pkt_order_flag AND 1) OR push_bit 11 (seg_len_id AND 0x3)
                OR (fhp AND 0x7FF);
          b4 = drop_bit 8 dfs AND 0xFF;
          b5 = dfs AND 0xFF
      in map word_of_int [b0, b1, mc_cnt blk AND 0xFF, vc_cnt blk AND 0xFF, b4, b5])"

definition advance_counters :: "framer \<Rightarrow> framer" where
  "advance_counters blk = blk\<lparr> mc_cnt := (mc_cnt blk + 1) AND 0xFF, vc_cnt := (vc_cnt blk + 1) AND 0xFF \<rparr>"

text \<open>\<^verbatim>\<open>_collect_spp_tags\<close>: the length tags of the window, sorted by offset, with a positive
  integer value.\<close>

definition collect_spp_tags :: "framer \<Rightarrow> tag list \<Rightarrow> nat \<Rightarrow> framer" where
  "collect_spp_tags blk tags n_input =
     blk\<lparr> pending_tags := pending_tags blk @
            List.map_filter
              (\<lambda>t. case t_value t of
                      PInt L \<Rightarrow> if L \<le> 0 then None else Some (int (t_offset t), L)
                    | POther \<Rightarrow> None)
              (sort_key t_offset (tags_in_window_key tags n_input len_tag_key)) \<rparr>"

text \<open>The loop that carves complete packets out of \<^verbatim>\<open>_inbuf\<close>.\<close>

function carve_spps :: "framer \<Rightarrow> framer" where
  "carve_spps blk =
     (case pending_tags blk of
        [] \<Rightarrow> blk
      | (rel_off, L) # rest \<Rightarrow>
          if rel_off < 0 then carve_spps (blk\<lparr> pending_tags := rest \<rparr>)
          else if int (length (inbuf blk)) < rel_off + L then blk
          else
            let pkt = take (nat L) (drop (nat rel_off) (inbuf blk))
            in carve_spps
                 (blk\<lparr> inbuf := drop (nat (rel_off + L)) (inbuf blk),
                        pending_tags := map (\<lambda>(off, l). (off - (rel_off + L), l)) rest,
                        spp_queue := spp_queue blk @ [\<lparr> pk_data = pkt, pk_pos = 0, pk_len = nat L \<rparr>] \<rparr>))"
  by pat_completeness auto
termination
  by (relation "measure (\<lambda>blk. length (pending_tags blk))") auto

declare carve_spps.simps [simp del]

text \<open>Python's slice assignment \<^verbatim>\<open>xs[i:j] = v\<close> on a \<^verbatim>\<open>bytearray\<close>, for \<open>0 \<le> i \<le> j\<close>: the
  slice is replaced by \<open>v\<close>, whatever its length.\<close>

definition slice_assign :: "'a list \<Rightarrow> nat \<Rightarrow> nat \<Rightarrow> 'a list \<Rightarrow> 'a list" where
  "slice_assign xs i j v = take i xs @ v @ drop j xs"

text \<open>The frame under construction: the data field, the cursor, the recorded header starts,
  and the queue and current packet of the block.\<close>

record frame_build =
  fb_tfdf :: "byte list"
  fb_cursor :: nat
  fb_header_starts :: "nat list"
  fb_queue :: "spp list"
  fb_cur :: "spp option"

text \<open>Step 1: the continuation of a split packet.\<close>

definition place_continuation :: "nat \<Rightarrow> frame_build \<Rightarrow> frame_build" where
  "place_continuation tfdf_len0 b =
     (case fb_cur b of
        None \<Rightarrow> b
      | Some pkt \<Rightarrow>
          let rem = int (pk_len pkt) - int (pk_pos pkt);
              take_n = min rem (int tfdf_len0 - int (fb_cursor b));
              (tfdf1, pkt1, cursor1) =
                (if take_n > 0
                 then (slice_assign (fb_tfdf b) (fb_cursor b) (fb_cursor b + nat take_n)
                         (take (nat take_n) (drop (pk_pos pkt) (pk_data pkt))),
                       pkt\<lparr> pk_pos := pk_pos pkt + nat take_n \<rparr>,
                       fb_cursor b + nat take_n)
                 else (fb_tfdf b, pkt, fb_cursor b))
          in b\<lparr> fb_tfdf := tfdf1, fb_cursor := cursor1,
                fb_cur := (if pk_pos pkt1 \<ge> pk_len pkt1 then None else Some pkt1) \<rparr>)"

text \<open>Step 2: the loop that places new packets; the recursion is on the queue, which loses
  its head in every pass that does not leave the loop.\<close>

fun place_new :: "nat \<Rightarrow> spp list \<Rightarrow> frame_build \<Rightarrow> frame_build" where
  "place_new tfdf_len0 [] b = b\<lparr> fb_queue := [] \<rparr>"
| "place_new tfdf_len0 (pkt # queue) b =
     (if \<not> fb_cursor b < tfdf_len0 then b\<lparr> fb_queue := pkt # queue \<rparr>
      else
        let cursor = fb_cursor b;
            hs = fb_header_starts b @ [cursor];
            L = pk_len pkt;
            room = tfdf_len0 - cursor
        in if L \<le> room
           then place_new tfdf_len0 queue
                  (b\<lparr> fb_tfdf := slice_assign (fb_tfdf b) cursor (cursor + L) (pk_data pkt),
                       fb_cursor := cursor + L, fb_header_starts := hs \<rparr>)
           else (if room > 0
                 then b\<lparr> fb_tfdf := slice_assign (fb_tfdf b) cursor (cursor + room) (take room (pk_data pkt)),
                          fb_cur := Some (pkt\<lparr> pk_pos := room \<rparr>),
                          fb_queue := queue, fb_cursor := tfdf_len0, fb_header_starts := hs \<rparr>
                 else b\<lparr> fb_queue := pkt # queue, fb_cursor := tfdf_len0, fb_header_starts := hs \<rparr>))"

text \<open>One pass of the frame loop, steps 1 to 7: the block after the frame, the frame, and the
  cursor that decides whether the loop goes on.\<close>

definition assemble_frame :: "framer \<Rightarrow> framer \<times> byte list \<times> nat" where
  "assemble_frame blk =
     (let b0 = \<lparr> fb_tfdf = replicate (tfdf_len blk) 0, fb_cursor = 0, fb_header_starts = [],
                 fb_queue = spp_queue blk, fb_cur = cur_pkt blk \<rparr>;
          b1 = place_continuation (tfdf_len blk) b0;
          b2 = place_new (tfdf_len blk) (fb_queue b1) b1;
          cursor = fb_cursor b2;
          only_idle = (cursor < tfdf_len blk \<and> emit_idle blk \<and> fb_header_starts b2 = []
                       \<and> fb_cur b2 = None \<and> fb_queue b2 = []);
          tfdf = (if only_idle
                  then slice_assign (fb_tfdf b2) cursor (tfdf_len blk)
                         (replicate (tfdf_len blk - cursor) (word_of_int (idle_fill blk)))
                  else fb_tfdf b2);
          fhp = (if only_idle then 0x7FE
                 else (case fb_header_starts b2 of [] \<Rightarrow> 0x7FF | h # _ \<Rightarrow> int h));
          blk1 = blk\<lparr> spp_queue := fb_queue b2, cur_pkt := fb_cur b2 \<rparr>;
          hdr = pack_tm_primary_header blk1 fhp;
          frame_wo_fecf = hdr @ tfdf;
          frame = (if include_fecf blk
                   then (let crc = crc16_ibm frame_wo_fecf
                         in frame_wo_fecf @ [ucast (drop_bit 8 crc AND 0xFF), ucast (crc AND 0xFF)])
                   else frame_wo_fecf)
      in (advance_counters blk1, frame, cursor))"

text \<open>The frame loop: \<^verbatim>\<open>while n_out - produced >= self.frame_len\<close>, left early after a frame
  that placed nothing when idle emission is off. Writing a frame that is longer than the room
  left in the output buffer raises \<^verbatim>\<open>ValueError\<close> in the numpy slice assignment. The result is
  the block and the frames written, each with the offset of its length tag (the value of the tag
  is the length of the frame).\<close>

function frame_loop :: "nat \<Rightarrow> nat \<Rightarrow> framer \<Rightarrow> py_error + (framer \<times> (nat \<times> byte list) list)" where
  "frame_loop n_out produced blk =
     (if \<not> (int n_out - int produced \<ge> int (frame_len blk)) then Inr (blk, [])
      else if length (fst (snd (assemble_frame blk))) > n_out - produced then Inl ValueError
      else
        let blk1 = fst (assemble_frame blk);
            frame = fst (snd (assemble_frame blk));
            cursor = snd (snd (assemble_frame blk))
        in if cursor = 0 \<and> \<not> emit_idle blk1 then Inr (blk1, [(produced, frame)])
           else (case frame_loop n_out (produced + length frame) blk1 of
                   Inl e \<Rightarrow> Inl e
                 | Inr (blk2, frames) \<Rightarrow> Inr (blk2, (produced, frame) # frames)))"
  by pat_completeness auto
termination
proof (relation "measure (\<lambda>(n_out, produced, blk). n_out - produced)")
  show "wf (measure (\<lambda>(n_out, produced, blk). n_out - produced))" by simp
next
  fix n_out produced :: nat and blk blk1 :: framer and frame :: "byte list" and cursor :: nat
  assume fits: "\<not> n_out - produced < length (fst (snd (assemble_frame blk)))"
    and frame: "frame = fst (snd (assemble_frame blk))"
  have "6 \<le> length (fst (snd (assemble_frame blk)))"
    by (simp add: assemble_frame_def Let_def pack_tm_primary_header_def)
  with fits frame
  show "((n_out, produced + length frame, blk1), (n_out, produced, blk))
      \<in> measure (\<lambda>(n_out, produced, blk). n_out - produced)"
    by simp
qed

declare frame_loop.simps [simp del]

text \<open>\<^verbatim>\<open>general_work\<close> of the framer: the block, the bytes written, the tags added and the
  number of input items consumed.\<close>

definition tm_general_work ::
  "framer \<Rightarrow> byte list \<Rightarrow> tag list \<Rightarrow> nat
     \<Rightarrow> py_error + (framer \<times> byte list \<times> tag list \<times> nat)" where
  "tm_general_work blk inp tags n_out =
     (if n_out < frame_len blk then Inr (blk, [], [], 0)
      else
        let n_in = length inp;
            blk1 = (if n_in \<noteq> 0 then collect_spp_tags (blk\<lparr> inbuf := inbuf blk @ inp \<rparr>) tags n_in
                    else blk);
            blk2 = carve_spps blk1
        in case frame_loop n_out 0 blk2 of
             Inl e \<Rightarrow> Inl e
           | Inr (blk3, frames) \<Rightarrow>
               Inr (blk3, concat (map snd frames),
                    map (\<lambda>(off, frame). \<lparr> t_offset = off, t_key = len_tag_key,
                                           t_value = PInt (int (length frame)) \<rparr>) frames,
                    n_in))"

text \<open>The First Header Pointer and the data field of an emitted frame.\<close>

definition frame_fhp :: "byte list \<Rightarrow> int" where
  "frame_fhp frame = from_bytes_big (take 2 (drop 4 frame)) AND 0x7FF"

definition frame_tfdf :: "framer \<Rightarrow> byte list \<Rightarrow> byte list" where
  "frame_tfdf blk frame = take (tfdf_len blk) (drop 6 frame)"


section \<open>Notions used to state the properties of the framer\<close>

text \<open>The bytes of a packet that are still to be sent, and the bytes the framer holds:
  the rest of the current packet, then the queued packets in order.\<close>

definition spp_rest :: "spp option \<Rightarrow> byte list" where
  "spp_rest c = (case c of None \<Rightarrow> [] | Some p \<Rightarrow> drop (pk_pos p) (pk_data p))"

definition queue_bytes :: "spp list \<Rightarrow> byte list" where
  "queue_bytes q = concat (map pk_data q)"

definition pending_bytes :: "framer \<Rightarrow> byte list" where
  "pending_bytes blk = spp_rest (cur_pkt blk) @ queue_bytes (spp_queue blk)"

text \<open>What the constructor and \<^verbatim>\<open>general_work\<close> maintain: the data field length fits the
  frame length, every packet record has the length of its data, and a current packet has bytes
  left.\<close>

definition spp_ok :: "spp \<Rightarrow> bool" where
  "spp_ok p = (pk_len p = length (pk_data p))"

definition cur_ok :: "spp option \<Rightarrow> bool" where
  "cur_ok c = (case c of None \<Rightarrow> True | Some p \<Rightarrow> spp_ok p \<and> pk_pos p < pk_len p)"

definition framer_ok :: "framer \<Rightarrow> bool" where
  "framer_ok blk =
     (frame_len blk = 6 + tfdf_len blk + (if include_fecf blk then 2 else 0)
      \<and> 0 < tfdf_len blk \<and> list_all spp_ok (spp_queue blk) \<and> cur_ok (cur_pkt blk))"


section \<open>Verification: CRC-32C\<close>

lemma and_one_neq_zero_iff: "(a AND 1 \<noteq> 0) = odd (a :: u32)"
  by (simp add: and_one_eq mod_2_eq_odd)

lemma crc_shift_odd: "crc_shift a = (if odd a then drop_bit 1 a XOR CRC32C_POLY else drop_bit 1 a)"
  by (simp add: crc_shift_def and_one_neq_zero_iff)

lemma crc_shift_xor: "crc_shift (a XOR b) = crc_shift a XOR crc_shift b"
  by (auto simp: crc_shift_odd even_xor_iff ac_simps)

lemma drop_bit_1_top: "\<not> bit (drop_bit 1 (a::u32)) 31"
  by (auto simp: bit_drop_bit_eq dest: bit_imp_le_length)

lemma poly_top: "bit CRC32C_POLY 31"
  by (simp add: CRC32C_POLY_def)

lemma even_drop_bit_1_zero:
  assumes "even (a::u32)" and "drop_bit 1 a = 0"
  shows "a = 0"
proof -
  have "push_bit 1 (drop_bit 1 a) + take_bit 1 a = a" by (rule bits_ident)
  moreover from assms(1) have "take_bit 1 a = 0"
    by (simp add: take_bit_eq_mod even_iff_mod_2_eq_zero)
  ultimately show ?thesis using assms(2) by simp
qed

lemma xor_cancel_left: "(a::'a::len word) XOR b = a XOR c \<Longrightarrow> b = c"
  by (metis xor.left_neutral xor_self_eq xor.assoc)

lemma xor_cancel_right: "(b::'a::len word) XOR a = c XOR a \<Longrightarrow> b = c"
  by (metis xor.right_neutral xor_self_eq xor.assoc)

lemma crc_shift_eq_zero:
  assumes "crc_shift a = 0"
  shows "a = 0"
proof (cases "odd a")
  case True
  with assms have "drop_bit 1 a XOR CRC32C_POLY = CRC32C_POLY XOR CRC32C_POLY"
    by (simp add: crc_shift_odd del: drop_bit_Suc)
  then have "drop_bit 1 a = CRC32C_POLY" by (rule xor_cancel_right)
  with drop_bit_1_top [of a] poly_top show ?thesis by simp
next
  case False
  with assms have "drop_bit 1 a = 0" by (simp add: crc_shift_odd)
  with False show ?thesis by (simp add: even_drop_bit_1_zero)
qed

lemma crc_shift_pow_xor: "(crc_shift ^^ n) (a XOR b) = (crc_shift ^^ n) a XOR (crc_shift ^^ n) b"
  by (induction n) (simp_all add: crc_shift_xor)

lemma crc_shift_pow_eq_zero: "(crc_shift ^^ n) a = 0 \<Longrightarrow> a = 0"
  by (induction n) (auto dest: crc_shift_eq_zero)

lemma crc_shift_pow_inj:
  assumes "(crc_shift ^^ n) a = (crc_shift ^^ n) b"
  shows "a = b"
proof -
  from assms have "(crc_shift ^^ n) (a XOR b) = 0" by (simp add: crc_shift_pow_xor)
  then have "a XOR b = b XOR b" by (simp add: crc_shift_pow_eq_zero)
  then show ?thesis by (rule xor_cancel_right)
qed

lemma crc_shift_pow_high:
  assumes "take_bit 8 (y::u32) = 0" and "k \<le> 8"
  shows "(crc_shift ^^ k) y = drop_bit k y"
  using assms(2)
proof (induction k)
  case 0
  show ?case by simp
next
  case (Suc k)
  then have IH: "(crc_shift ^^ k) y = drop_bit k y" and k: "k < 8" by simp_all
  have "\<not> bit (take_bit 8 y) k" using assms(1) by simp
  with k have "\<not> bit y k" by (simp add: bit_take_bit_iff)
  then have "even (drop_bit k y)" by (simp add: bit_iff_odd_drop_bit)
  then have "crc_shift (drop_bit k y) = drop_bit (Suc k) y"
    by (simp add: crc_shift_odd drop_bit_drop_bit del: drop_bit_Suc)
  with IH show ?case by simp
qed

lemma low_byte_take_bit: "(x::u32) AND 0xFF = take_bit 8 x"
  by (simp add: take_bit_eq_mask mask_eq_exp_minus_1)

lemma crc32c_table_nth: "crc32c_table ! unat ((x::u32) AND 0xFF) = (crc_shift ^^ 8) (x AND 0xFF)"
proof -
  have "unat (x AND 0xFF) \<le> unat (0xFF :: u32)"
    by (rule word_and_le1 [THEN word_le_nat_alt [THEN iffD1]])
  then have "unat (x AND 0xFF) < 256" by simp
  then show ?thesis by (simp add: crc32c_table_def del: funpow.simps)
qed

lemma split_low_byte: "(x::u32) = take_bit 8 x XOR push_bit 8 (drop_bit 8 x)"
  by (rule bit_eqI) (auto simp: bit_simps)

lemma crc_shift8_split: "(crc_shift ^^ 8) x = (crc_shift ^^ 8) (take_bit 8 x) XOR drop_bit 8 x"
proof -
  have "take_bit 8 (push_bit 8 (drop_bit 8 x)) = 0"
    by (rule bit_eqI) (auto simp: bit_simps)
  then have "(crc_shift ^^ 8) (push_bit 8 (drop_bit 8 x)) = drop_bit 8 (push_bit 8 (drop_bit 8 x))"
    by (rule crc_shift_pow_high) simp
  also have "\<dots> = drop_bit 8 x"
    by (rule bit_eqI) (auto simp: bit_simps dest: bit_imp_le_length)
  finally have hi: "(crc_shift ^^ 8) (push_bit 8 (drop_bit 8 x)) = drop_bit 8 x" .
  have "(crc_shift ^^ 8) x = (crc_shift ^^ 8) (take_bit 8 x XOR push_bit 8 (drop_bit 8 x))"
    using split_low_byte [of x] by simp
  also have "\<dots> = (crc_shift ^^ 8) (take_bit 8 x) XOR (crc_shift ^^ 8) (push_bit 8 (drop_bit 8 x))"
    by (rule crc_shift_pow_xor)
  finally show ?thesis using hi by simp
qed

lemma crc32c_update_shift: "crc32c_update crc b = (crc_shift ^^ 8) (crc XOR ucast b)"
proof -
  have hi: "drop_bit 8 (crc XOR ucast b) = drop_bit 8 crc"
    by (rule bit_eqI) (auto simp: bit_simps dest: bit_imp_le_length)
  have "crc32c_update crc b = (crc_shift ^^ 8) ((crc XOR ucast b) AND 0xFF) XOR drop_bit 8 crc"
    by (simp only: crc32c_update_def crc32c_table_nth)
  also have "\<dots> = (crc_shift ^^ 8) (take_bit 8 (crc XOR ucast b)) XOR drop_bit 8 crc"
    by (simp only: low_byte_take_bit)
  also have "\<dots> = (crc_shift ^^ 8) (crc XOR ucast b)"
    using crc_shift8_split [of "crc XOR ucast b"] hi by simp
  finally show ?thesis .
qed

lemma crc32c_update_inj: "crc32c_update c b = crc32c_update c' b' \<Longrightarrow> c XOR ucast b = c' XOR ucast b'"
  unfolding crc32c_update_shift by (rule crc_shift_pow_inj)

lemma ucast_byte_inj: "(ucast (a::byte) :: u32) = ucast b \<Longrightarrow> a = b"
proof (rule bit_eqI)
  fix n
  assume eq: "(ucast a :: u32) = ucast b" and "possible_bit TYPE(byte) n"
  then have n: "n < 8" by (simp add: possible_bit_word)
  from eq have "bit (ucast a :: u32) n = bit (ucast b :: u32) n" by simp
  with n show "bit a n = bit b n" by (simp add: bit_ucast_iff)
qed

lemma fold_update_neq:
  "c \<noteq> c' \<Longrightarrow> fold (\<lambda>b crc. crc32c_update crc b) ys c \<noteq> fold (\<lambda>b crc. crc32c_update crc b) ys c'"
proof (induction ys arbitrary: c c')
  case Nil
  then show ?case by simp
next
  case (Cons y ys)
  have "crc32c_update c y \<noteq> crc32c_update c' y"
  proof
    assume "crc32c_update c y = crc32c_update c' y"
    then have "c XOR ucast y = c' XOR ucast y" by (rule crc32c_update_inj)
    then have "c = c'" by (rule xor_cancel_right)
    with Cons.prems show False by simp
  qed
  then show ?case using Cons.IH by simp
qed

lemma crc32c_flip_mid:
  assumes "d \<noteq> 0"
  shows "crc32c (xs @ (b XOR d) # ys) \<noteq> crc32c (xs @ b # ys)"
proof -
  let ?f = "\<lambda>b crc. crc32c_update crc b"
  define c where "c = fold ?f xs 0xFFFFFFFF"
  have "crc32c_update c (b XOR d) \<noteq> crc32c_update c b"
  proof
    assume "crc32c_update c (b XOR d) = crc32c_update c b"
    then have "c XOR ucast (b XOR d) = c XOR ucast b" by (rule crc32c_update_inj)
    then have "(ucast (b XOR d) :: u32) = ucast b" by (rule xor_cancel_left)
    then have "b XOR d = b" by (rule ucast_byte_inj)
    then have "b XOR d = b XOR 0" by simp
    then have "d = 0" by (rule xor_cancel_left)
    with assms show False by simp
  qed
  then have "fold ?f ys (crc32c_update c (b XOR d)) \<noteq> fold ?f ys (crc32c_update c b)"
    by (rule fold_update_neq)
  then have "fold ?f ys (crc32c_update c (b XOR d)) XOR 0xFFFFFFFF \<noteq> fold ?f ys (crc32c_update c b) XOR 0xFFFFFFFF"
    using xor_cancel_right by blast
  then show ?thesis by (simp add: crc32c_def crc32c_init_def c_def)
qed

lemma crc32c_flip_bit:
  assumes "i < length U" and "k < 8"
  shows "crc32c (flip_bit_at U i k) \<noteq> crc32c U"
proof -
  from assms(1) have U: "take i U @ (U ! i) # drop (Suc i) U = U"
    by (simp add: id_take_nth_drop [symmetric])
  from assms(1) have U': "flip_bit_at U i k = take i U @ ((U ! i) XOR push_bit k 1) # drop (Suc i) U"
    by (simp add: flip_bit_at_def upd_conv_take_nth_drop)
  have "(push_bit k 1 :: byte) \<noteq> 0"
  proof
    assume z: "(push_bit k 1 :: byte) = 0"
    from assms(2) have "bit (push_bit k 1 :: byte) k" by (simp add: bit_exp_iff possible_bit_word)
    with z show False by (simp only: bit_0_eq) simp
  qed
  then have "crc32c (take i U @ ((U ! i) XOR push_bit k 1) # drop (Suc i) U)
               \<noteq> crc32c (take i U @ (U ! i) # drop (Suc i) U)"
    by (rule crc32c_flip_mid)
  then show ?thesis unfolding U U' .
qed

lemma be_u32_uint:
  "be_u32 (uint (w::u32)) = Inr (map (\<lambda>k. word_of_int (drop_bit k (uint w))) [24, 16, 8, 0])"
proof -
  have "uint w < 2 ^ 32" using uint_bounded [of w] by simp
  then show ?thesis by (simp add: be_u32_def)
qed

lemma from_bytes_big_be:
  assumes "0 \<le> x" and "x < 2 ^ 32"
  shows "from_bytes_big (map (\<lambda>k. word_of_int (drop_bit k x)) [24, 16, 8, 0]) = x"
proof -
  have b: "uint (word_of_int y :: byte) = y mod 256" for y
    by (simp add: uint_word_of_int)
  define a where "a = x div 256"
  define c where "c = a div 256"
  have x: "x = 256 * a + x mod 256" by (simp add: a_def)
  have a: "a = 256 * c + a mod 256" by (simp add: c_def)
  have c: "c = 256 * (c div 256) + c mod 256" by simp
  have d1: "x div 65536 = c" using zdiv_zmult2_eq [of 256 x 256] by (simp add: a_def c_def)
  have d2: "x div 16777216 = c div 256" using zdiv_zmult2_eq [of 256 x 65536] d1 by simp
  have lin: "16777216 * q + 65536 * r2 + r1 * 256 + r0 = x"
    if "x = 256 * a + r0" and "a = 256 * c + r1" and "c = 256 * q + r2" for q r2 r1 r0 :: int
    using that by simp
  have e: "16777216 * (x div 16777216) + 65536 * (x div 65536 mod 256) + x div 256 mod 256 * 256
          + x mod 256 = x"
    unfolding d1 d2 a_def [symmetric] by (rule lin [OF x a c])
  from assms have c0: "c div 256 mod 256 = c div 256" 
    unfolding d2[symmetric] by simp
  have "from_bytes_big (map (\<lambda>k. word_of_int (drop_bit k x)) [24, 16, 8, 0]) = 
    16777216 * (x div 16777216) + 65536 * (x div 65536 mod 256) + x div 256 mod 256 * 256
          + x mod 256"
    using c0 unfolding d2[symmetric]
    by (simp add: from_bytes_big_def b drop_bit_eq_div)
  with e show ?thesis by (simp only:)
qed

lemma from_bytes_big_uint:
  "from_bytes_big (map (\<lambda>k. word_of_int (drop_bit k (uint (w::u32)))) [24, 16, 8, 0]) = uint w"
proof -
  have "uint w < 2 ^ 32" using uint_bounded [of w] by simp
  then show ?thesis by (intro from_bytes_big_be) simp_all
qed

lemma build_packet_mic_shape:
  assumes "build_packet_for_profile env prof seq counter = Inr (pkt, n, mh)"
    and "p_use_mic prof = Some True"
  shows "\<exists>apid t sec U hdr mic. user_wo_mic_padded env prof counter = Inr (apid, t, sec, U)
           \<and> be_u32 (uint (crc32c U)) = Inr mic \<and> length hdr = 6 \<and> pkt = hdr @ sec @ U @ mic"
proof -
  from assms(1) obtain apid t sec U where
    u: "user_wo_mic_padded env prof counter = Inr (apid, t, sec, U)"
    by (auto simp: build_packet_for_profile_def split: sum.splits prod.splits)
  let ?mic = "map (\<lambda>k. word_of_int (drop_bit k (uint (crc32c U)))) [24, 16, 8, 0]"
  from assms u obtain hdr where
    h: "pack_primary_header 0 t (if length sec > 0 then 1 else 0) apid 3 (seq AND 0x3FFF)
          ((int (length sec) + int (length (U @ ?mic))) - 1) = Inr hdr"
    and p: "pkt = hdr @ sec @ U @ ?mic"
    by (auto simp: build_packet_for_profile_def be_u32_uint Let_def split: sum.splits)
  from h have "length hdr = 6"
    by (auto simp: pack_primary_header_def Let_def split: if_splits)
  with u p show ?thesis using be_u32_uint [of "crc32c U"] by blast
qed

section \<open>Verification: the sender\<close>

lemma py_int_0x0B3: "py_int 0 ''0x0B3'' = Some 179"
  by (simp add: py_int_def py_strip_def py_isspace_def py_int_unsigned_def has_hex_prefix_def
      digit_val_def)

lemma py_int_00: "py_int 16 ''00'' = Some 0"
  by (simp add: py_int_def py_strip_def py_isspace_def py_int_unsigned_def has_hex_prefix_def
      digit_val_def)

lemma c3_user_wo_mic_padded:
  assumes "0 \<le> time_ns env" and "time_ns env < 2 ^ 64"
  shows "user_wo_mic_padded env c3_profile counter =
     Inr (179, 1, map (\<lambda>k. word_of_int (drop_bit k (time_ns env))) [56, 48, 40, 32, 24, 16, 8, 0],
          c3_user)"
  using assms
  by (simp add: user_wo_mic_padded_def c3_profile_def parse_apid_def py_int_0x0B3 py_int_00
      py_upper_def make_sec_hdr_def make_time_tag_ns8_def be_u64_def body_from_spec_def
      pad_or_truncate_to_len_def c3_user_def encode_ascii_replace_def)

lemma c3_header: "pack_primary_header 0 1 1 179 3 0 137 = Inr [0x18, 0xB3, 0xC0, 0x00, 0x00, 0x89]"
  by (simp add: pack_primary_header_def)

lemma c3_user_length: "length c3_user = 126"
  by (simp add: c3_user_def encode_ascii_replace_def)

lemma c3_build:
  assumes "0 \<le> time_ns env" and "time_ns env < 2 ^ 64"
  shows "build_packet_for_profile env c3_profile 0 counter =
     Inr ([0x18, 0xB3, 0xC0, 0x00, 0x00, 0x89]
          @ map (\<lambda>k. word_of_int (drop_bit k (time_ns env))) [56, 48, 40, 32, 24, 16, 8, 0]
          @ c3_user
          @ map (\<lambda>k. word_of_int (drop_bit k (uint (crc32c c3_user)))) [24, 16, 8, 0],
          144, fmt_0x08x (uint (crc32c c3_user)))"
proof -
  have m: "p_use_mic c3_profile = Some True" by (simp add: c3_profile_def)
  show ?thesis
    by (simp add: build_packet_for_profile_def c3_user_wo_mic_padded [OF assms] m be_u32_uint
        c3_user_length c3_header Let_def)
qed

text \<open>
  C3, as the code has it. For the profile APID 0x0B3, type TC, secondary header \<^verbatim>\<open>ns8\<close>, ASCII body
  \<^verbatim>\<open>0.21/data/\<close>, pad byte 00, MIC enabled, data field length 138, at sequence count 0 and with a
  clock inside the 64-bit range, \<^verbatim>\<open>build_packet_for_profile\<close> returns a packet of 144 bytes: the
  primary header 18 B3 C0 00 00 89 (type bit 12 and secondary-header flag bit 11 over the APID
  0x0B3 give the first word 0x18B3), the 8 bytes of the time tag, the 126 user bytes
  \<^verbatim>\<open>0.21/data/\<close> followed by 116 zero bytes, and the big-endian CRC-32C of these 126 bytes.
\<close>

theorem c3_scenario_packet:
  assumes "0 \<le> time_ns env" and "time_ns env < 2 ^ 64"
  shows "\<exists>sec mic. be_u64 (time_ns env) = Inr sec \<and> be_u32 (uint (crc32c c3_user)) = Inr mic
           \<and> build_packet_for_profile env c3_profile 0 counter =
               Inr ([0x18, 0xB3, 0xC0, 0x00, 0x00, 0x89] @ sec @ c3_user @ mic, 144,
                    fmt_0x08x (uint (crc32c c3_user)))
           \<and> length sec = 8 \<and> length mic = 4 \<and> length c3_user = 126
           \<and> c3_user = encode_ascii_replace ''0.21/data/'' @ replicate 116 0"
proof -
  let ?sec = "map (\<lambda>k. word_of_int (drop_bit k (time_ns env))) [56, 48, 40, 32, 24, 16, 8, 0] :: byte list"
  let ?mic = "map (\<lambda>k. word_of_int (drop_bit k (uint (crc32c c3_user)))) [24, 16, 8, 0] :: byte list"
  from assms have "be_u64 (time_ns env) = Inr ?sec" by (simp add: be_u64_def)
  moreover have "be_u32 (uint (crc32c c3_user)) = Inr ?mic" by (rule be_u32_uint)
  moreover have "build_packet_for_profile env c3_profile 0 counter =
      Inr ([0x18, 0xB3, 0xC0, 0x00, 0x00, 0x89] @ ?sec @ c3_user @ ?mic, 144,
           fmt_0x08x (uint (crc32c c3_user)))"
    by (rule c3_build [OF assms])
  moreover have "length ?sec = 8" and "length ?mic = 4" by simp_all
  moreover have "c3_user = encode_ascii_replace ''0.21/data/'' @ replicate 116 0"
    by (simp add: c3_user_def)
  ultimately show ?thesis using c3_user_length by blast
qed

theorem c3_scenario_packet_witness:
  "0 \<le> time_ns c3_env \<and> time_ns c3_env < 2 ^ 64 \<and>
   (\<exists>sec mic. build_packet_for_profile c3_env c3_profile 0 0 =
       Inr ([0x18, 0xB3, 0xC0, 0x00, 0x00, 0x89] @ sec @ c3_user @ mic, 144,
            fmt_0x08x (uint (crc32c c3_user))) \<and> length sec = 8 \<and> length mic = 4)"
proof -
  have h1: "0 \<le> time_ns c3_env" and h2: "time_ns c3_env < 2 ^ 64"
    by (simp_all add: c3_env_def)
  from c3_scenario_packet [OF h1 h2, of 0] h1 h2 show ?thesis by blast
qed

text \<open>
  C3 as stated fails: the first header byte of the packet built for this profile is 0x18, not the
  0x1A of the claim.
\<close>

theorem c3_header_counterexample:
  "take 6 (fst (projr (build_packet_for_profile c3_env c3_profile 0 0)))
     = [0x18, 0xB3, 0xC0, 0x00, 0x00, 0x89]
   \<and> take 6 (fst (projr (build_packet_for_profile c3_env c3_profile 0 0)))
     \<noteq> [0x1A, 0xB3, 0xC0, 0x00, 0x00, 0x89]"
proof -
  have h1: "0 \<le> time_ns c3_env" and h2: "time_ns c3_env < 2 ^ 64"
    by (simp_all add: c3_env_def)
  show ?thesis by (simp add: c3_build [OF h1 h2])
qed

text \<open>
  C7. For every byte string \<open>U\<close> the four bytes the sender appends for it are the big-endian
  encoding of \<open>crc32c U\<close>; in every packet built with the MIC enabled these four bytes follow the
  padded user bytes and are computed over them alone (the secondary header lies before them and
  is not covered); flipping one bit of \<open>U\<close> changes \<open>crc32c U\<close>.
\<close>

theorem mic_closure:
  "(\<exists>mic. be_u32 (uint (crc32c U)) = Inr mic \<and> length mic = 4
       \<and> from_bytes_big mic = uint (crc32c U))
   \<and> (build_packet_for_profile env prof seq counter = Inr (pkt, n, mh)
        \<and> p_use_mic prof = Some True \<longrightarrow>
       (\<exists>apid t sec P hdr mic. user_wo_mic_padded env prof counter = Inr (apid, t, sec, P)
          \<and> be_u32 (uint (crc32c P)) = Inr mic \<and> length hdr = 6 \<and> pkt = hdr @ sec @ P @ mic))
   \<and> (i < length U \<and> k < 8 \<longrightarrow> crc32c (flip_bit_at U i k) \<noteq> crc32c U)"
proof (intro conjI impI)
  show "\<exists>mic. be_u32 (uint (crc32c U)) = Inr mic \<and> length mic = 4
       \<and> from_bytes_big mic = uint (crc32c U)"
    using be_u32_uint [of "crc32c U"] from_bytes_big_uint [of "crc32c U"] by simp
next
  assume "build_packet_for_profile env prof seq counter = Inr (pkt, n, mh)
        \<and> p_use_mic prof = Some True"
  then show "\<exists>apid t sec P hdr mic. user_wo_mic_padded env prof counter = Inr (apid, t, sec, P)
          \<and> be_u32 (uint (crc32c P)) = Inr mic \<and> length hdr = 6 \<and> pkt = hdr @ sec @ P @ mic"
    using build_packet_mic_shape by blast
next
  assume "i < length U \<and> k < 8"
  then show "crc32c (flip_bit_at U i k) \<noteq> crc32c U"
    by (simp add: crc32c_flip_bit)
qed

theorem mic_closure_witness:
  "(\<exists>apid t sec P hdr mic. user_wo_mic_padded c3_env c3_profile 0 = Inr (apid, t, sec, P)
      \<and> be_u32 (uint (crc32c P)) = Inr mic \<and> length hdr = 6
      \<and> fst (projr (build_packet_for_profile c3_env c3_profile 0 0)) = hdr @ sec @ P @ mic)
   \<and> (0::nat) < length c3_user \<and> (7::nat) < 8
   \<and> crc32c (flip_bit_at c3_user 0 7) \<noteq> crc32c c3_user"
proof -
  have h1: "0 \<le> time_ns c3_env" and h2: "time_ns c3_env < 2 ^ 64"
    by (simp_all add: c3_env_def)
  let ?pkt = "[0x18, 0xB3, 0xC0, 0x00, 0x00, 0x89]
          @ map (\<lambda>k. word_of_int (drop_bit k (time_ns c3_env))) [56, 48, 40, 32, 24, 16, 8, 0]
          @ c3_user
          @ map (\<lambda>k. word_of_int (drop_bit k (uint (crc32c c3_user)))) [24, 16, 8, 0]"
  have b: "build_packet_for_profile c3_env c3_profile 0 0
             = Inr (?pkt, 144, fmt_0x08x (uint (crc32c c3_user)))"
    by (rule c3_build [OF h1 h2])
  have m: "p_use_mic c3_profile = Some True" by (simp add: c3_profile_def)
  have l: "(0::nat) < length c3_user" by (simp add: c3_user_length)
  from mic_closure [of c3_user c3_env c3_profile 0 0 ?pkt 144 "fmt_0x08x (uint (crc32c c3_user))" 0 7]
    b m l
  show ?thesis by simp
qed

section \<open>Verification: the receiver\<close>

lemma py_take_neg4: "4 \<le> length xs \<Longrightarrow> py_take (- 4) xs = take (length xs - 4) xs"
  by (simp add: py_take_def nat_diff_distrib')

lemma py_drop_neg4: "4 \<le> length xs \<Longrightarrow> py_drop (- 4) xs = drop (length xs - 4) xs"
  by (simp add: py_drop_def nat_diff_distrib')

lemma mic_detect_cases:
  "mic_detect mic_mode mic_expect um =
     (if mic_mode = ''off'' then (''OFF'', [], um)
      else if 4 \<le> length um then
        (if from_bytes_big (drop (length um - 4) um) = uint (crc32c (take (length um - 4) um))
         then (''OK'', fmt_0x08x (from_bytes_big (drop (length um - 4) um)), take (length um - 4) um)
         else if mic_mode = ''on'' \<or> mic_expect = Some True
              then (''BAD'', fmt_0x08x (from_bytes_big (drop (length um - 4) um)), um)
              else (''none'', [], um))
      else if mic_mode = ''on'' \<or> mic_expect = Some True then (''SHORT'', [], um)
      else (''none'', [], um))"
  by (simp add: mic_detect_def Let_def py_take_neg4 py_drop_neg4)

lemma process_packet_report:
  assumes "process_packet pkt ph sec_cli mic_mode apid_map = Inr r"
  shows "\<exists>sec_mode mic_expect. resolve_sec_mode sec_cli (ph_apid ph) apid_map = Inr (sec_mode, mic_expect)
     \<and> r_sec_mode r = sec_mode
     \<and> (r_mic_state r, r_mic_hex r, r_user r)
         = mic_detect mic_mode mic_expect (py_drop (r_sec_len r) (drop 6 pkt))"
  using assms
  by (auto simp: process_packet_def Let_def split: sum.splits prod.splits)

lemma crc32c_Nil: "crc32c [] = 0"
  by (simp add: crc32c_def crc32c_init_def)

lemma c4_run:
  "process_packet [0x10, 0xB3, 0xC0, 0x00, 0x00, 0x03, 0, 0, 0, 1]
     \<lparr> ph_version = 0, ph_type = 1, ph_shf = 0, ph_apid = 179, ph_seq_flags = 3,
           ph_seq_count = 0, ph_data_field_len = 3, ph_total_len = 10 \<rparr>
     ''auto'' ''auto'' [179 \<mapsto> c3_profile]
   = Inr \<lparr> r_sec_mode = ''ns8'', r_sec_len = 0, r_sec_hdr = [], r_mic_state = ''BAD'',
           r_mic_hex = fmt_0x08x 1, r_user = [0, 0, 0, 1] \<rparr>"
  by (simp add: process_packet_def resolve_sec_mode_def expected_sec_mode_and_mic_for_apid_def
      c3_profile_def py_take_def py_drop_def mic_detect_cases crc32c_Nil from_bytes_big_def)

text \<open>
  C4, as the code has it. \<^verbatim>\<open>process_packet\<close> applies MIC detection to the bytes \<open>um\<close> that follow
  the secondary header. In mode \<^verbatim>\<open>off\<close> nothing is inspected: the state is OFF and all of \<open>um\<close>
  is the user. Otherwise, when \<open>um\<close> has at least 4 bytes, the CRC-32C of all but its last 4
  bytes is compared with the last 4 bytes read big-endian: equality gives OK with \<open>um[:-4]\<close> as
  the user; inequality gives BAD exactly when the mode is \<^verbatim>\<open>on\<close> or the profile of the APID
  (looked up when the secondary-header mode is \<^verbatim>\<open>auto\<close>) sets \<^verbatim>\<open>use_mic\<close>, and \<^verbatim>\<open>none\<close>
  otherwise. When \<open>um\<close> has fewer than 4 bytes the state is SHORT under the same condition and
  \<^verbatim>\<open>none\<close> otherwise.
\<close>

theorem mic_detect_policy:
  "process_packet pkt ph sec_cli mic_mode apid_map = Inr r \<longrightarrow>
   (\<exists>sec_mode mic_expect.
      resolve_sec_mode sec_cli (ph_apid ph) apid_map = Inr (sec_mode, mic_expect) \<and>
      (let um = py_drop (r_sec_len r) (drop 6 pkt);
           body = take (length um - 4) um;
           tail = drop (length um - 4) um;
           expected = (mic_mode = ''on'' \<or> mic_expect = Some True)
       in (mic_mode = ''off'' \<longrightarrow> r_mic_state r = ''OFF'' \<and> r_user r = um) \<and>
          (mic_mode \<noteq> ''off'' \<and> 4 \<le> length um \<and> from_bytes_big tail = uint (crc32c body) \<longrightarrow>
             r_mic_state r = ''OK'' \<and> r_user r = body) \<and>
          (mic_mode \<noteq> ''off'' \<and> 4 \<le> length um \<and> from_bytes_big tail \<noteq> uint (crc32c body) \<longrightarrow>
             r_user r = um \<and> (r_mic_state r = ''BAD'') = expected
             \<and> (r_mic_state r = ''none'') = (\<not> expected)) \<and>
          (mic_mode \<noteq> ''off'' \<and> length um < 4 \<longrightarrow>
             r_user r = um \<and> (r_mic_state r = ''SHORT'') = expected
             \<and> (r_mic_state r = ''none'') = (\<not> expected))))"
proof
  assume "process_packet pkt ph sec_cli mic_mode apid_map = Inr r"
  then obtain sec_mode mic_expect where
    res: "resolve_sec_mode sec_cli (ph_apid ph) apid_map = Inr (sec_mode, mic_expect)"
    and det: "(r_mic_state r, r_mic_hex r, r_user r)
         = mic_detect mic_mode mic_expect (py_drop (r_sec_len r) (drop 6 pkt))"
    using process_packet_report by blast
  from det have "let um = py_drop (r_sec_len r) (drop 6 pkt);
           body = take (length um - 4) um;
           tail = drop (length um - 4) um;
           expected = (mic_mode = ''on'' \<or> mic_expect = Some True)
       in (mic_mode = ''off'' \<longrightarrow> r_mic_state r = ''OFF'' \<and> r_user r = um) \<and>
          (mic_mode \<noteq> ''off'' \<and> 4 \<le> length um \<and> from_bytes_big tail = uint (crc32c body) \<longrightarrow>
             r_mic_state r = ''OK'' \<and> r_user r = body) \<and>
          (mic_mode \<noteq> ''off'' \<and> 4 \<le> length um \<and> from_bytes_big tail \<noteq> uint (crc32c body) \<longrightarrow>
             r_user r = um \<and> (r_mic_state r = ''BAD'') = expected
             \<and> (r_mic_state r = ''none'') = (\<not> expected)) \<and>
          (mic_mode \<noteq> ''off'' \<and> length um < 4 \<longrightarrow>
             r_user r = um \<and> (r_mic_state r = ''SHORT'') = expected
             \<and> (r_mic_state r = ''none'') = (\<not> expected))"
    by (simp add: mic_detect_cases Let_def split: if_splits)
  with res show "\<exists>sec_mode mic_expect.
      resolve_sec_mode sec_cli (ph_apid ph) apid_map = Inr (sec_mode, mic_expect) \<and>
      (let um = py_drop (r_sec_len r) (drop 6 pkt);
           body = take (length um - 4) um;
           tail = drop (length um - 4) um;
           expected = (mic_mode = ''on'' \<or> mic_expect = Some True)
       in (mic_mode = ''off'' \<longrightarrow> r_mic_state r = ''OFF'' \<and> r_user r = um) \<and>
          (mic_mode \<noteq> ''off'' \<and> 4 \<le> length um \<and> from_bytes_big tail = uint (crc32c body) \<longrightarrow>
             r_mic_state r = ''OK'' \<and> r_user r = body) \<and>
          (mic_mode \<noteq> ''off'' \<and> 4 \<le> length um \<and> from_bytes_big tail \<noteq> uint (crc32c body) \<longrightarrow>
             r_user r = um \<and> (r_mic_state r = ''BAD'') = expected
             \<and> (r_mic_state r = ''none'') = (\<not> expected)) \<and>
          (mic_mode \<noteq> ''off'' \<and> length um < 4 \<longrightarrow>
             r_user r = um \<and> (r_mic_state r = ''SHORT'') = expected
             \<and> (r_mic_state r = ''none'') = (\<not> expected)))"
    by blast
qed

theorem mic_detect_policy_witness:
  "process_packet [0x10, 0xB3, 0xC0, 0x00, 0x00, 0x03, 0, 0, 0, 1]
     \<lparr> ph_version = 0, ph_type = 1, ph_shf = 0, ph_apid = 179, ph_seq_flags = 3,
       ph_seq_count = 0, ph_data_field_len = 3, ph_total_len = 10 \<rparr>
     ''auto'' ''auto'' [179 \<mapsto> c3_profile]
   = Inr \<lparr> r_sec_mode = ''ns8'', r_sec_len = 0, r_sec_hdr = [], r_mic_state = ''BAD'',
           r_mic_hex = fmt_0x08x 1, r_user = [0, 0, 0, 1] \<rparr>
   \<and> resolve_sec_mode ''auto'' 179 [179 \<mapsto> c3_profile] = Inr (''ns8'', Some True)
   \<and> from_bytes_big [0, 0, 0, 1] \<noteq> uint (crc32c [])"
proof -
  let ?pkt = "[0x10, 0xB3, 0xC0, 0x00, 0x00, 0x03, 0, 0, 0, 1] :: byte list"
  let ?ph = "\<lparr> ph_version = 0, ph_type = 1, ph_shf = 0, ph_apid = 179, ph_seq_flags = 3,
       ph_seq_count = 0, ph_data_field_len = 3, ph_total_len = 10 \<rparr>"
  let ?r = "\<lparr> r_sec_mode = ''ns8'', r_sec_len = 0, r_sec_hdr = [], r_mic_state = ''BAD'',
           r_mic_hex = fmt_0x08x 1, r_user = [0, 0, 0, 1] \<rparr>"
  have run: "process_packet ?pkt ?ph ''auto'' ''auto'' [179 \<mapsto> c3_profile] = Inr ?r"
    by (rule c4_run)
  have res: "resolve_sec_mode ''auto'' 179 [179 \<mapsto> c3_profile] = Inr (''ns8'', Some True)"
    by (simp add: resolve_sec_mode_def expected_sec_mode_and_mic_for_apid_def c3_profile_def)
  have ne: "from_bytes_big [0, 0, 0, 1] \<noteq> uint (crc32c [])"
    by (simp add: crc32c_Nil from_bytes_big_def)
  from mic_detect_policy [of ?pkt ?ph "''auto''" "''auto''" "[179 \<mapsto> c3_profile]" ?r]
    run res ne
  show ?thesis by simp
qed

text \<open>
  C4 as stated fails: in mode \<^verbatim>\<open>auto\<close>, for an APID whose profile sets \<^verbatim>\<open>use_mic\<close>, a packet
  whose last four bytes are not the CRC-32C of the bytes before them is reported BAD although the
  mode is not \<^verbatim>\<open>on\<close>.
\<close>

theorem mic_bad_in_auto_counterexample:
  "r_mic_state (projr (process_packet [0x10, 0xB3, 0xC0, 0x00, 0x00, 0x03, 0, 0, 0, 1]
     \<lparr> ph_version = 0, ph_type = 1, ph_shf = 0, ph_apid = 179, ph_seq_flags = 3,
       ph_seq_count = 0, ph_data_field_len = 3, ph_total_len = 10 \<rparr>
     ''auto'' ''auto'' [179 \<mapsto> c3_profile])) = ''BAD''
   \<and> ''auto'' \<noteq> ''on''"
  by (simp add: c4_run)

lemma sec_len_overrun_report:
  assumes "resolve_sec_mode sec_cli (ph_apid ph) apid_map = Inr (sec_mode, mic_expect)"
    and "sec_len_from_mode sec_mode = Inr n"
    and "n > int (length (drop 6 pkt))"
  shows "process_packet pkt ph sec_cli mic_mode apid_map =
     Inr \<lparr> r_sec_mode = sec_mode, r_sec_len = 0, r_sec_hdr = [],
           r_mic_state = fst (mic_detect mic_mode mic_expect (drop 6 pkt)),
           r_mic_hex = fst (snd (mic_detect mic_mode mic_expect (drop 6 pkt))),
           r_user = snd (snd (mic_detect mic_mode mic_expect (drop 6 pkt))) \<rparr>"
  using assms
  by (simp add: process_packet_def Let_def py_take_def py_drop_def split: prod.splits)

text \<open>
  C10. When the secondary-header length configured for the packet (the value of
  \<^verbatim>\<open>sec_len_from_mode\<close> for the mode chosen for its APID) exceeds the length of the data field,
  \<^verbatim>\<open>process_packet\<close> does not raise: it returns a report with secondary-header length 0, an
  empty secondary header, and the outcome of MIC detection on the whole data field.
\<close>

theorem sec_len_overrun:
  assumes "resolve_sec_mode sec_cli (ph_apid ph) apid_map = Inr (sec_mode, mic_expect)"
    and "sec_len_from_mode sec_mode = Inr n"
    and "n > int (length (drop 6 pkt))"
  shows "\<exists>mic_state mic_hex user.
     mic_detect mic_mode mic_expect (drop 6 pkt) = (mic_state, mic_hex, user) \<and>
     process_packet pkt ph sec_cli mic_mode apid_map =
       Inr \<lparr> r_sec_mode = sec_mode, r_sec_len = 0, r_sec_hdr = [],
             r_mic_state = mic_state, r_mic_hex = mic_hex, r_user = user \<rparr>"
  using sec_len_overrun_report [OF assms, of mic_mode]
  by (cases "mic_detect mic_mode mic_expect (drop 6 pkt)") simp

theorem sec_len_overrun_witness:
  "resolve_sec_mode ''ns8'' 179 Map.empty = Inr (''ns8'', None)
   \<and> sec_len_from_mode ''ns8'' = Inr 8
   \<and> (8::int) > int (length (drop 6 [0x18, 0xB3, 0xC0, 0x00, 0x00, 0x03, 0, 0, 0, 1 :: byte]))
   \<and> process_packet [0x18, 0xB3, 0xC0, 0x00, 0x00, 0x03, 0, 0, 0, 1]
        \<lparr> ph_version = 0, ph_type = 1, ph_shf = 1, ph_apid = 179, ph_seq_flags = 3,
          ph_seq_count = 0, ph_data_field_len = 3, ph_total_len = 10 \<rparr>
        ''ns8'' ''on'' Map.empty
      = Inr \<lparr> r_sec_mode = ''ns8'', r_sec_len = 0, r_sec_hdr = [], r_mic_state = ''BAD'',
              r_mic_hex = fmt_0x08x 1, r_user = [0, 0, 0, 1] \<rparr>"
proof -
  let ?pkt = "[0x18, 0xB3, 0xC0, 0x00, 0x00, 0x03, 0, 0, 0, 1] :: byte list"
  let ?ph = "\<lparr> ph_version = 0, ph_type = 1, ph_shf = 1, ph_apid = 179, ph_seq_flags = 3,
          ph_seq_count = 0, ph_data_field_len = 3, ph_total_len = 10 \<rparr>"
  have h1: "resolve_sec_mode ''ns8'' (ph_apid ?ph) Map.empty = Inr (''ns8'', None)"
    by (simp add: resolve_sec_mode_def)
  have h2: "sec_len_from_mode ''ns8'' = Inr 8" by (simp add: sec_len_from_mode_def)
  have h3: "(8::int) > int (length (drop 6 ?pkt))" by simp
  have d: "mic_detect ''on'' None (drop 6 ?pkt) = (''BAD'', fmt_0x08x 1, [0, 0, 0, 1])"
    by (simp add: mic_detect_cases crc32c_Nil from_bytes_big_def)
  from sec_len_overrun [OF h1 h2 h3, of "''on''"] d h1 h2 h3 show ?thesis by simp
qed

section \<open>Verification: the randomizer\<close>

lemma rand_bytes_length: "length (fst (rand_bytes xs l)) = length xs"
  by (induction xs arbitrary: l) (simp_all add: split_beta Let_def)

lemma xor_twice: "((b::byte) XOR p) XOR p = b"
  by (simp add: xor.assoc)

lemma rand_bytes_twice: "rand_bytes (fst (rand_bytes xs l)) l = (xs, snd (rand_bytes xs l))"
  by (induction xs arbitrary: l) (simp_all add: split_beta Let_def xor_twice)

lemma consume_length_tags_frame:
  "0 < n \<Longrightarrow> consume_length_tags (frame_tag n) n = [(0, int n)]"
  by (simp add: consume_length_tags_def frame_tag_def tags_in_window_key_def tags_in_window_def
      List.map_filter_simps)

lemma forward_tags_frame: "forward_tags (frame_tag n) n = []"
  by (simp add: forward_tags_def frame_tag_def tags_in_window_def)

lemma rnd_general_work_frame:
  assumes "frame \<noteq> []" and "length frame \<le> n_out"
    and "rnd_enabled blk" and "rnd_restart_per_frame blk"
  shows "rnd_general_work blk frame (frame_tag (length frame)) n_out =
     (blk\<lparr> rnd_lfsr := snd (rand_bytes frame (rnd_seed blk)), rnd_frame_bytes_left := 0 \<rparr>,
      fst (rand_bytes frame (rnd_seed blk)), frame_tag (length frame), length frame)"
proof -
  from assms(1) have n: "0 < length frame" by simp
  from n assms(2) have pos: "0 < n_out" by linarith
  let ?c2 = "\<lparr> rc_blk = blk\<lparr> rnd_lfsr := rnd_seed blk, rnd_frame_bytes_left := int (length frame) \<rparr>,
               rc_out = [], rc_tags = frame_tag (length frame) \<rparr>"
  have w: "walk_starts frame n_out [(0, int (length frame))]
             \<lparr> rc_blk = blk, rc_out = [], rc_tags = [] \<rparr> = ?c2"
    using assms(4) by (simp add: Let_def frame_tag_def)
  have p: "process_chunk frame n_out ?c2 (int (length frame)) =
      \<lparr> rc_blk = blk\<lparr> rnd_lfsr := snd (rand_bytes frame (rnd_seed blk)), rnd_frame_bytes_left := 0 \<rparr>,
        rc_out = fst (rand_bytes frame (rnd_seed blk)), rc_tags = frame_tag (length frame) \<rparr>"
    using n pos assms(2,3) by (simp add: process_chunk_def Let_def split_beta min_def)
  from n pos show ?thesis
    by (simp add: rnd_general_work_def Let_def consume_length_tags_frame forward_tags_frame w p
        rand_bytes_length del: walk_starts.simps)
qed

lemma randomize_eq: "randomize frame seed = fst (rand_bytes frame (seed AND 0x7FFF))"
proof (cases "frame = []")
  case True
  then show ?thesis by (simp add: randomize_def rnd_general_work_def)
next
  case False
  then show ?thesis
    by (simp add: randomize_def rnd_general_work_frame randomizer_init_def)
qed

text \<open>
  C8. For every frame and every seed (the constructor keeps its low 15 bits), passing the frame
  through the randomizer stage twice, the register re-seeded at the frame's length tag each time,
  gives back the frame.
\<close>

theorem randomizer_involution: "randomize (randomize frame seed) seed = frame"
  by (simp add: randomize_eq rand_bytes_twice)

end
